theory Spec2Isabelle
  imports Complex_Main
begin

section \<open>Python values: exceptions, dictionaries, arrays\<close>

text \<open>
  The paradigm layer of moabb (\<^verbatim>\<open>moabb/paradigms/base.py\<close> and
  \<^verbatim>\<open>moabb/paradigms/p300.py\<close>) is embedded shallowly. A Python function that
  may raise returns \<open>error + 'a\<close> with \<open>Inl\<close> the exception; a function that
  may return \<^verbatim>\<open>None\<close> as a sentinel returns an option inside that sum. Times are
  Python floats; they are modelled as reals, so rounding and NaN are outside the model.
\<close>

datatype error =
    ValueError string
  | RuntimeError string
  | AssertionError string
  | IndexError string
  | KeyError string
  | TypeError string
  | NameError string
  | AttributeError string
  | FileNotFoundError string
  | UnpicklingError string

text \<open>Sequencing of two steps where the first may raise.\<close>

fun and_then :: "error + 'a \<Rightarrow> ('a \<Rightarrow> error + 'b) \<Rightarrow> error + 'b" where
  "and_then (Inl e) f = Inl e"
| "and_then (Inr x) f = f x"

text \<open>
  \<^verbatim>\<open>try: ... except RuntimeError: return\<close>: a RuntimeError of the body becomes
  the sentinel \<^verbatim>\<open>None\<close>, every other exception propagates.
\<close>

fun except_RuntimeError_return :: "error + 'a \<Rightarrow> error + 'a option" where
  "except_RuntimeError_return (Inl (RuntimeError m)) = Inr None"
| "except_RuntimeError_return (Inl e) = Inl e"
| "except_RuntimeError_return (Inr x) = Inr (Some x)"

text \<open>
  \<^verbatim>\<open>try: ... except ValueError: return\<close> (base.py, lines 114 to 120).
\<close>

fun except_ValueError_return :: "error + 'a \<Rightarrow> error + 'a option" where
  "except_ValueError_return (Inl (ValueError m)) = Inr None"
| "except_ValueError_return (Inl e) = Inl e"
| "except_ValueError_return (Inr x) = Inr (Some x)"

text \<open>
  A Python dict is an association list with distinct keys in insertion order;
  \<open>dict_set d k v\<close> is \<^verbatim>\<open>d[k] = v\<close>.
\<close>

fun dict_set :: "('k \<times> 'v) list \<Rightarrow> 'k \<Rightarrow> 'v \<Rightarrow> ('k \<times> 'v) list" where
  "dict_set [] k v = [(k, v)]"
| "dict_set ((k', v') # d) k v =
     (if k' = k then (k, v) # d else (k', v') # dict_set d k v)"

definition dict_get :: "('k \<times> 'v) list \<Rightarrow> 'k \<Rightarrow> ('k \<Rightarrow> string) \<Rightarrow> error + 'v" where
  "dict_get d k shw = (case map_of d k of None \<Rightarrow> Inl (KeyError (shw k)) | Some v \<Rightarrow> Inr v)"

text \<open>
  A numpy array is its shape and its elements in row-major order. Only the operations
  the two source files apply to arrays are modelled.
\<close>

record ndarray =
  shape :: "nat list"
  flat :: "real list"

text \<open>\<^verbatim>\<open>c * a\<close> for a float \<^verbatim>\<open>c\<close>.\<close>

definition nd_scale :: "real \<Rightarrow> ndarray \<Rightarrow> ndarray" where
  "nd_scale c a = \<lparr>shape = shape a, flat = map (\<lambda>v. c * v) (flat a)\<rparr>"

text \<open>\<^verbatim>\<open>len(a)\<close>: the length of the first axis; a 0-d array has no length.\<close>

definition nd_len :: "ndarray \<Rightarrow> error + nat" where
  "nd_len a =
     (case shape a of
        [] \<Rightarrow> Inl (TypeError ''len() of unsized object'')
      | n # rest \<Rightarrow> Inr n)"

text \<open>
  \<^verbatim>\<open>a[0]\<close>: the first slice along the first axis; numpy raises IndexError when
  that axis has size 0 (and for a 0-d array).
\<close>

definition nd_getitem0 :: "ndarray \<Rightarrow> error + ndarray" where
  "nd_getitem0 a =
     (case shape a of
        [] \<Rightarrow> Inl (IndexError ''too many indices for array'')
      | n # rest \<Rightarrow>
          if n = 0 then Inl (IndexError ''index 0 is out of bounds for axis 0 with size 0'')
          else Inr \<lparr>shape = rest, flat = take (prod_list rest) (flat a)\<rparr>)"

text \<open>
  \<^verbatim>\<open>np.append(a, b, axis=0)\<close>: both arrays need the same number of dimensions
  (at least one) and the same shape after the first axis.
\<close>

definition np_append_axis0 :: "ndarray \<Rightarrow> ndarray \<Rightarrow> error + ndarray" where
  "np_append_axis0 a b =
     (case shape a of
        [] \<Rightarrow> Inl (ValueError ''zero-dimensional arrays cannot be concatenated'')
      | n # ra \<Rightarrow>
          (case shape b of
             [] \<Rightarrow> Inl (ValueError ''zero-dimensional arrays cannot be concatenated'')
           | m # rb \<Rightarrow>
               if ra = rb then Inr \<lparr>shape = (n + m) # ra, flat = flat a @ flat b\<rparr>
               else Inl (ValueError ''all the input array dimensions except for the concatenation axis must match exactly'')))"

text \<open>
  \<^verbatim>\<open>np.array(X).transpose((1, 2, 3, 0))\<close> for a list \<^verbatim>\<open>X\<close> of arrays: the
  arrays are stacked along a new leading axis, which the transposition moves to the
  end. The transposition names four axes, so the stacked array must be 4-d: every
  element of \<^verbatim>\<open>X\<close> is 3-d and all have one shape. Otherwise numpy raises
  ValueError (from \<^verbatim>\<open>np.array\<close> for a ragged list, from \<^verbatim>\<open>transpose\<close>
  for a wrong number of axes). Element \<open>q\<close> of the result in row-major order is
  element \<open>q div N\<close> of band \<open>q mod N\<close>.
\<close>

definition np_stack_transpose :: "ndarray list \<Rightarrow> error + ndarray" where
  "np_stack_transpose as =
     (case as of
        [] \<Rightarrow> Inl (ValueError ''axes don't match array'')
      | a # rest \<Rightarrow>
          if list_all (\<lambda>b. shape b = shape a) rest \<and> length (shape a) = 3
          then Inr \<lparr>shape = shape a @ [length as],
                    flat = map (\<lambda>q. flat (as ! (q mod length as)) ! (q div length as))
                             [0 ..< prod_list (shape a) * length as]\<rparr>
          else Inl (ValueError ''axes don't match array''))"

section \<open>Recordings, events and the MNE collaborator\<close>

text \<open>
  An event is a row \<^verbatim>\<open>[sample, previous, code]\<close> of MNE's event array.
\<close>

type_synonym event = "int \<times> int \<times> int"

definition ev_sample :: "event \<Rightarrow> int" where
  "ev_sample e = fst e"

definition ev_code :: "event \<Rightarrow> int" where
  "ev_code e = snd (snd e)"

text \<open>
  A value of a dataset's \<^verbatim>\<open>event_id\<close> dict: one code, or (in this fork) a list
  of codes that \<^verbatim>\<open>process_raw\<close> merges.
\<close>

datatype event_code = Single int | Group "int list"

fun is_list :: "event_code \<Rightarrow> bool" where
  "is_list (Single c) = False"
| "is_list (Group cs) = True"

record annotation =
  onset :: real
  duration :: real
  description :: string

text \<open>
  \<^verbatim>\<open>mne.io.Raw\<close>: the parts of a recording the paradigm reads or writes.
\<close>

record raw =
  ch_names :: "string list"
  sfreq :: real
  signal :: "real list list"
  annotations :: "annotation list"

text \<open>
  The values \<^verbatim>\<open>reject_from_eog\<close> takes: \<^verbatim>\<open>False\<close> or \<^verbatim>\<open>None\<close>,
  \<^verbatim>\<open>True\<close>, a channel name, or a dict of keyword arguments for
  \<^verbatim>\<open>find_eog_events\<close>.
\<close>

datatype kwarg = KwNone | KwStr string | KwNum real

datatype eog_option =
    EogOff
  | EogTrue
  | EogChannel string
  | EogKwargs "(string \<times> kwarg) list"

text \<open>Python truthiness: the empty string and the empty dict are false.\<close>

fun truthy :: "eog_option \<Rightarrow> bool" where
  "truthy EogOff = False"
| "truthy EogTrue = True"
| "truthy (EogChannel s) = (s \<noteq> [])"
| "truthy (EogKwargs d) = (d \<noteq> [])"

text \<open>
  The keyword arguments of \<^verbatim>\<open>mne.Epochs\<close> that vary; \<^verbatim>\<open>proj=False\<close>,
  \<^verbatim>\<open>preload=True\<close>, \<^verbatim>\<open>verbose=False\<close> and \<^verbatim>\<open>on_missing="ignore"\<close>
  are the same at every call.
\<close>

record epoching_kwargs =
  kw_event_id :: "(string \<times> event_code) list"
  kw_tmin :: real
  kw_tmax :: real
  kw_reject_tmin :: "real option"
  kw_reject_tmax :: "real option"
  kw_baseline :: "(real \<times> real) option"
  kw_picks :: "nat list"
  kw_reject_by_annotation :: eog_option
  kw_event_repeated :: string

text \<open>
  \<^verbatim>\<open>mne.Epochs\<close>: MNE keeps one row of \<^verbatim>\<open>events\<close> per retained window, and
  \<^verbatim>\<open>get_data()\<close> is a 3-d array windows x channels x samples over the same
  windows. The record has that contract built in: a window is its event together with
  its samples (one list per channel), so \<^verbatim>\<open>epochs.events\<close>, \<^verbatim>\<open>len(epochs)\<close>
  and the first axis of \<^verbatim>\<open>get_data()\<close> count the same list.
\<close>

record epochs =
  ep_windows :: "(event \<times> real list list) list"
  ep_nchan :: nat
  ep_ntimes :: nat
  ep_tmin :: real
  ep_tmax :: real
  ep_sfreq :: real

definition ep_events :: "epochs \<Rightarrow> event list" where
  "ep_events e = map fst (ep_windows e)"

definition ep_len :: "epochs \<Rightarrow> nat" where
  "ep_len e = length (ep_windows e)"

definition ep_get_data :: "epochs \<Rightarrow> ndarray" where
  "ep_get_data e =
     \<lparr>shape = [length (ep_windows e), ep_nchan e, ep_ntimes e],
      flat = concat (concat (map snd (ep_windows e)))\<rparr>"

text \<open>
  \<^verbatim>\<open>epochs[0]\<close>: the sub-selection holding the first window; IndexError when
  there is none.
\<close>

definition ep_getitem0 :: "epochs \<Rightarrow> error + epochs" where
  "ep_getitem0 e =
     (case ep_windows e of
        [] \<Rightarrow> Inl (IndexError ''index 0 is out of bounds for axis 0 with size 0'')
      | w # rest \<Rightarrow> Inr (e\<lparr>ep_windows := [w]\<rparr>))"

text \<open>
  The signal-processing primitives of MNE are a trusted collaborator whose algorithms
  are out of scope: the model takes them as a parameter. Each may raise.
  \<open>mne_events_from_annotations\<close> takes the \<^verbatim>\<open>event_id\<close> argument (\<open>None\<close> when
  the call leaves it out); \<open>mne_filter\<close> is \<^verbatim>\<open>raw.copy().filter(fmin, fmax,
  method="iir", picks=picks)\<close> and returns the filtered copy; \<open>mne_drop_bad\<close>,
  \<open>mne_crop\<close> and \<open>mne_resample\<close> return the \<^verbatim>\<open>Epochs\<close> object after the
  call.
\<close>

record mne =
  mne_find_eog_events :: "raw \<Rightarrow> (string \<times> kwarg) list \<Rightarrow> error + event list"
  mne_get_stim_channel :: "raw \<Rightarrow> string list"
  mne_find_events :: "raw \<Rightarrow> error + event list"
  mne_events_from_annotations :: "raw \<Rightarrow> (string \<times> event_code) list option \<Rightarrow> error + event list"
  mne_pick_types :: "raw \<Rightarrow> string list \<Rightarrow> error + nat list"
  mne_pick_channels :: "string list \<Rightarrow> string list \<Rightarrow> error + nat list"
  mne_merge_events :: "event list \<Rightarrow> int list \<Rightarrow> int \<Rightarrow> error + event list"
  mne_pick_events :: "event list \<Rightarrow> event_code list \<Rightarrow> error + event list"
  mne_filter :: "raw \<Rightarrow> real \<Rightarrow> real \<Rightarrow> nat list \<Rightarrow> error + raw"
  mne_Epochs :: "raw \<Rightarrow> event list \<Rightarrow> epoching_kwargs \<Rightarrow> error + epochs"
  mne_drop_bad :: "epochs \<Rightarrow> real \<Rightarrow> error + epochs"
  mne_crop :: "epochs \<Rightarrow> real \<Rightarrow> real \<Rightarrow> error + epochs"
  mne_resample :: "epochs \<Rightarrow> real \<Rightarrow> error + epochs"
  mne_concatenate_epochs :: "epochs list \<Rightarrow> error + epochs"

text \<open>
  The dataset collaborator. \<open>dataset_get_data\<close> is \<^verbatim>\<open>dataset.get_data(subjects)\<close>:
  a dict subject to session to run to recording, in insertion order.
\<close>

type_synonym recordings = "(int \<times> (string \<times> (string \<times> raw) list) list) list"

record dataset =
  paradigm :: string
  event_id :: "(string \<times> event_code) list"
  interval :: "real \<times> real"
  unit_factor :: real
  code :: string
  class_name :: string
  dataset_get_data :: "int list option \<Rightarrow> error + recordings"

section \<open>The P300 paradigm: configuration\<close>

text \<open>
  The attributes \<^verbatim>\<open>BaseP300.__init__\<close> stores (p300.py, lines 75 to 99).
\<close>

record BaseP300 =
  filters :: "(real \<times> real) list"
  events :: "string list option"
  channels :: "string list option"
  baseline :: "(real \<times> real) option"
  resample :: "real option"
  reject_uv :: "real option"
  reject_from_eog :: eog_option
  tmin :: real
  tmax :: "real option"
  reject_tmin :: "real option"
  reject_tmax :: "real option"

text \<open>
  \<^verbatim>\<open>BaseP300.__init__\<close>. The checks run in the order of the source; the two
  messages that format \<^verbatim>\<open>tmin\<close> into the text are given without the number.
\<close>

definition BaseP300_init ::
  "(real \<times> real) list \<Rightarrow> string list option \<Rightarrow> real \<Rightarrow> real option \<Rightarrow> real option \<Rightarrow>
   real option \<Rightarrow> (real \<times> real) option \<Rightarrow> string list option \<Rightarrow> real option \<Rightarrow>
   real option \<Rightarrow> eog_option \<Rightarrow> error + BaseP300" where
  "BaseP300_init filters' events' tmin' tmax' reject_tmin' reject_tmax' baseline' channels'
       resample' reject_uv' reject_from_eog' =
     (if (case tmax' of None \<Rightarrow> False | Some t \<Rightarrow> tmin' \<ge> t)
      then Inl (ValueError ''tmax must be greater than tmin'')
      else if (case reject_tmin' of None \<Rightarrow> False | Some r \<Rightarrow> r \<le> tmin')
      then Inl (ValueError ''reject_tmin must be greater or equal to tmin'')
      else if (case reject_tmax' of None \<Rightarrow> False | Some r \<Rightarrow> r \<le> tmin')
      then Inl (ValueError ''reject_tmax must be greater than tmin'')
      else if (case reject_tmin' of None \<Rightarrow> False
               | Some a \<Rightarrow> (case reject_tmax' of None \<Rightarrow> False | Some b \<Rightarrow> a \<ge> b))
      then Inl (ValueError ''reject_tmax must be greater than reject_tmin'')
      else Inr \<lparr>filters = filters', events = events', channels = channels',
                baseline = baseline', resample = resample', reject_uv = reject_uv',
                reject_from_eog = reject_from_eog', tmin = tmin', tmax = tmax',
                reject_tmin = reject_tmin', reject_tmax = reject_tmax'\<rparr>)"

text \<open>
  \<^verbatim>\<open>SinglePass.__init__\<close> and \<^verbatim>\<open>P300.__init__\<close>: one band, and the events
  \<^verbatim>\<open>["Target", "NonTarget"]\<close>. The keyword arguments \<^verbatim>\<open>filters\<close> and
  \<^verbatim>\<open>events\<close>, which these constructors refuse, are not arguments of the model.
\<close>

definition P300_init ::
  "real \<Rightarrow> real \<Rightarrow> real \<Rightarrow> real option \<Rightarrow> real option \<Rightarrow> real option \<Rightarrow>
   (real \<times> real) option \<Rightarrow> string list option \<Rightarrow> real option \<Rightarrow> real option \<Rightarrow>
   eog_option \<Rightarrow> error + BaseP300" where
  "P300_init fmin fmax = BaseP300_init [(fmin, fmax)] (Some [''Target'', ''NonTarget''])"

text \<open>\<^verbatim>\<open>BaseP300.is_valid\<close> (p300.py, lines 101 to 112).\<close>

definition is_valid :: "BaseP300 \<Rightarrow> dataset \<Rightarrow> bool" where
  "is_valid self ds =
     (let ret = True;
          ret = (if paradigm ds = ''p300'' then ret else False);
          ret = (case events self of
                   None \<Rightarrow> ret
                 | Some [] \<Rightarrow> ret
                 | Some evs \<Rightarrow>
                     if set evs \<subseteq> set (map fst (event_id ds)) then ret else False)
      in ret)"

text \<open>
  \<^verbatim>\<open>P300.used_events\<close>: \<^verbatim>\<open>{ev: dataset.event_id[ev] for ev in self.events}\<close>;
  a label the dataset does not have raises KeyError.
\<close>

fun used_events_from ::
  "(string \<times> event_code) list \<Rightarrow> string list \<Rightarrow> (string \<times> event_code) list \<Rightarrow>
   error + (string \<times> event_code) list" where
  "used_events_from eid [] acc = Inr acc"
| "used_events_from eid (ev # evs) acc =
     (case map_of eid ev of
        None \<Rightarrow> Inl (KeyError ev)
      | Some c \<Rightarrow> used_events_from eid evs (dict_set acc ev c))"

definition used_events :: "BaseP300 \<Rightarrow> dataset \<Rightarrow> error + (string \<times> event_code) list" where
  "used_events self ds =
     (case events self of
        None \<Rightarrow> Inl (TypeError ''NoneType object is not iterable'')
      | Some evs \<Rightarrow> used_events_from (event_id ds) evs [])"

section \<open>The P300 paradigm: processing one recording\<close>

text \<open>
  The feature output \<^verbatim>\<open>X\<close> is a numpy array, an \<^verbatim>\<open>Epochs\<close> object or a
  Python list of such values, depending on the flags.
\<close>

datatype xval = Arr ndarray | Epo epochs | Lst "xval list"

text \<open>
  Lines 121 to 141 of p300.py: the keyword arguments for the blink detector, and the
  annotations \<^verbatim>\<open>raw.set_annotations(raw.annotations + blink_annot)\<close> stores in the
  recording that was passed in. \<^verbatim>\<open>orig_time\<close> is not modelled.
\<close>

definition eog_kwargs_of :: "eog_option \<Rightarrow> raw \<Rightarrow> error + (string \<times> kwarg) list" where
  "eog_kwargs_of opt rw =
     (case opt of
        EogKwargs d \<Rightarrow> Inr d
      | EogChannel s \<Rightarrow>
          if s \<in> set (ch_names rw) then Inr [(''ch_name'', KwStr s)]
          else Inl (ValueError (s @ '' not in channels ''))
      | EogTrue \<Rightarrow> Inr [(''ch_name'', KwNone)]
      | EogOff \<Rightarrow> Inl (NameError ''eog_kwargs''))"

definition blink_annotations :: "raw \<Rightarrow> event list \<Rightarrow> annotation list" where
  "blink_annotations rw eog_events =
     (let time_pre_blink = 0.25;
          blink_length = 0.7;
          onsets = map (\<lambda>e. real_of_int (ev_sample e) / sfreq rw - time_pre_blink) eog_events
      in map (\<lambda>t. \<lparr>onset = t, duration = blink_length, description = ''bad blink''\<rparr>) onsets)"

definition annotate_blinks :: "mne \<Rightarrow> BaseP300 \<Rightarrow> raw \<Rightarrow> error + raw" where
  "annotate_blinks lib self rw =
     (if truthy (reject_from_eog self)
      then and_then (eog_kwargs_of (reject_from_eog self) rw) (\<lambda>eog_kwargs.
           and_then (mne_find_eog_events lib rw eog_kwargs) (\<lambda>eog_events.
             Inr (rw\<lparr>annotations := annotations rw @ blink_annotations rw eog_events\<rparr>)))
      else Inr rw)"

text \<open>
  Lines 143 to 147: the event stream, from the stimulus channel when there is one and
  from the annotations otherwise. No exception is handled here.
\<close>

definition find_all_events :: "mne \<Rightarrow> raw \<Rightarrow> error + event list" where
  "find_all_events lib rw =
     (if length (mne_get_stim_channel lib rw) > 0 then mne_find_events lib rw
      else mne_events_from_annotations lib rw None)"

text \<open>
  Lines 150 to 157: the channel selection. The result of the first
  \<^verbatim>\<open>pick_types\<close> call is overwritten.
\<close>

definition pick_channel_indices :: "mne \<Rightarrow> BaseP300 \<Rightarrow> raw \<Rightarrow> error + nat list" where
  "pick_channel_indices lib self rw =
     (let chs = (case channels self of None \<Rightarrow> [] | Some cs \<Rightarrow> cs) in
      and_then (mne_pick_types lib rw chs) (\<lambda>picks.
        case channels self of
          None \<Rightarrow> mne_pick_types lib rw []
        | Some cs \<Rightarrow> mne_pick_channels lib (ch_names rw) chs))"

text \<open>
  Lines 163 to 172: the body of the \<^verbatim>\<open>try\<close>, and the handler that turns a
  RuntimeError (raised by \<^verbatim>\<open>pick_events\<close> when no event is left) into the
  sentinel. The result is the event dict in use and the selected events.
\<close>

definition group_codes :: "event_code \<Rightarrow> int list" where
  "group_codes c = (case c of Single n \<Rightarrow> [n] | Group ns \<Rightarrow> ns)"

definition select_events_body ::
  "mne \<Rightarrow> (string \<times> event_code) list \<Rightarrow> event list \<Rightarrow>
   error + ((string \<times> event_code) list \<times> event list)" where
  "select_events_body lib eid evs =
     and_then (dict_get eid ''Target'' id) (\<lambda>target.
     and_then (if is_list target
               then and_then (dict_get eid ''NonTarget'' id) (\<lambda>nontarget. Inr (is_list nontarget))
               else Inr False) (\<lambda>both_lists.
       if both_lists
       then and_then (dict_get eid ''NonTarget'' id) (\<lambda>nontarget.
            let event_id_new = [(''Target'', Single 1), (''NonTarget'', Single 0)] in
            and_then (mne_merge_events lib evs (group_codes target) 1) (\<lambda>evs1.
            and_then (mne_merge_events lib evs1 (group_codes nontarget) 0) (\<lambda>evs2.
            and_then (mne_pick_events lib evs2 (map snd event_id_new)) (\<lambda>evs3.
              Inr (event_id_new, evs3)))))
       else and_then (mne_pick_events lib evs (map snd eid)) (\<lambda>evs1. Inr (eid, evs1))))"

definition select_events ::
  "mne \<Rightarrow> (string \<times> event_code) list \<Rightarrow> event list \<Rightarrow>
   error + ((string \<times> event_code) list \<times> event list) option" where
  "select_events lib eid evs = except_RuntimeError_return (select_events_body lib eid evs)"

text \<open>
  Lines 192 to 216, for one band: the shifted baseline, \<^verbatim>\<open>bmin\<close> and
  \<^verbatim>\<open>bmax\<close>, and the keyword arguments for \<^verbatim>\<open>mne.Epochs\<close>.
\<close>

definition shifted_baseline :: "BaseP300 \<Rightarrow> dataset \<Rightarrow> (real \<times> real) option" where
  "shifted_baseline self ds =
     (case baseline self of
        None \<Rightarrow> None
      | Some b \<Rightarrow> Some (fst b + fst (interval ds), snd b + fst (interval ds)))"

definition bmin_of :: "(real \<times> real) option \<Rightarrow> real \<Rightarrow> real" where
  "bmin_of bl tmin' = (case bl of None \<Rightarrow> tmin' | Some b \<Rightarrow> if fst b < tmin' then fst b else tmin')"

definition bmax_of :: "(real \<times> real) option \<Rightarrow> real \<Rightarrow> real" where
  "bmax_of bl tmax' = (case bl of None \<Rightarrow> tmax' | Some b \<Rightarrow> if snd b > tmax' then snd b else tmax')"

definition p300_epoching_kwargs ::
  "BaseP300 \<Rightarrow> dataset \<Rightarrow> (string \<times> event_code) list \<Rightarrow> nat list \<Rightarrow> real \<Rightarrow> real \<Rightarrow>
   epoching_kwargs" where
  "p300_epoching_kwargs self ds eid picks tmin' tmax' =
     \<lparr>kw_event_id = eid,
      kw_tmin = tmin',
      kw_tmax = tmax',
      kw_reject_tmin = reject_tmin self,
      kw_reject_tmax = reject_tmax self,
      kw_baseline = shifted_baseline self ds,
      kw_picks = picks,
      kw_reject_by_annotation = reject_from_eog self,
      kw_event_repeated = ''error''\<rparr>"

text \<open>
  Lines 186 to 233: one iteration of the loop over the filter bank. It returns the
  filtered copy, the epochs and the keyword arguments.
\<close>

definition p300_band ::
  "mne \<Rightarrow> BaseP300 \<Rightarrow> raw \<Rightarrow> dataset \<Rightarrow> event list \<Rightarrow> (string \<times> event_code) list \<Rightarrow>
   nat list \<Rightarrow> real \<Rightarrow> real \<Rightarrow> real \<times> real \<Rightarrow> error + (raw \<times> epochs \<times> epoching_kwargs)" where
  "p300_band lib self rw ds evs eid picks tmin' tmax' bandpass =
     (let fmin = fst bandpass; fmax = snd bandpass in
      and_then (mne_filter lib rw fmin fmax picks) (\<lambda>raw_f.
        let bl = shifted_baseline self ds;
            bmin = bmin_of bl tmin';
            bmax = bmax_of bl tmax';
            epoching = p300_epoching_kwargs self ds eid picks tmin' tmax'
        in
        and_then (mne_Epochs lib raw_f evs epoching) (\<lambda>ep.
        and_then (case reject_uv self of
                    None \<Rightarrow> Inr ep
                  | Some uv \<Rightarrow> mne_drop_bad lib ep (uv / 1000000)) (\<lambda>ep.
        and_then (if bmin < tmin' \<or> bmax > tmax' then mne_crop lib ep tmin' tmax' else Inr ep) (\<lambda>ep.
        and_then (case resample self of
                    None \<Rightarrow> Inr ep
                  | Some rate \<Rightarrow> mne_resample lib ep rate) (\<lambda>ep.
          Inr (raw_f, ep, epoching)))))))"

text \<open>
  The state the loop over \<^verbatim>\<open>self.filters\<close> leaves behind: the lists \<^verbatim>\<open>X\<close>
  and \<^verbatim>\<open>runs\<close>, and the variables \<^verbatim>\<open>epochs\<close> and \<^verbatim>\<open>epoching_kwargs\<close>,
  which are unbound (\<open>None\<close>) when the bank is empty.
\<close>

record band_state =
  bs_X :: "xval list"
  bs_runs :: "raw option list"
  bs_epochs :: "epochs option"
  bs_kwargs :: "epoching_kwargs option"

fun p300_bands ::
  "mne \<Rightarrow> BaseP300 \<Rightarrow> raw \<Rightarrow> dataset \<Rightarrow> event list \<Rightarrow> (string \<times> event_code) list \<Rightarrow>
   nat list \<Rightarrow> real \<Rightarrow> real \<Rightarrow> bool \<Rightarrow> bool \<Rightarrow> (real \<times> real) list \<Rightarrow> band_state \<Rightarrow>
   error + band_state" where
  "p300_bands lib self rw ds evs eid picks tmin' tmax' return_epochs return_runs [] st = Inr st"
| "p300_bands lib self rw ds evs eid picks tmin' tmax' return_epochs return_runs (bandpass # bands) st =
     and_then (p300_band lib self rw ds evs eid picks tmin' tmax' bandpass) (\<lambda>(raw_f, ep, epoching).
       p300_bands lib self rw ds evs eid picks tmin' tmax' return_epochs return_runs bands
         \<lparr>bs_X = bs_X st @ [if return_epochs then Epo ep
                             else Arr (nd_scale (unit_factor ds) (ep_get_data ep))],
          bs_runs = bs_runs st @ [if return_runs then Some raw_f else None],
          bs_epochs = Some ep,
          bs_kwargs = Some epoching\<rparr>)"

text \<open>
  Line 235: \<^verbatim>\<open>inv_events = {k: v for v, k in event_id.items()}\<close>. A list is not
  hashable, so a grouped code as a key raises TypeError.
\<close>

fun invert_event_id ::
  "(string \<times> event_code) list \<Rightarrow> (int \<times> string) list \<Rightarrow> error + (int \<times> string) list" where
  "invert_event_id [] acc = Inr acc"
| "invert_event_id ((v, k) # items) acc =
     (case k of
        Group cs \<Rightarrow> Inl (TypeError ''unhashable type: list'')
      | Single c \<Rightarrow> invert_event_id items (dict_set acc c v))"

text \<open>Python's \<^verbatim>\<open>str\<close> of an integer, for messages and the cache key.\<close>

fun str_nat :: "nat \<Rightarrow> string" where
  "str_nat n =
     (if n < 10 then [''0123456789'' ! n]
      else str_nat (n div 10) @ [''0123456789'' ! (n mod 10)])"

definition str_int :: "int \<Rightarrow> string" where
  "str_int i = (if i < 0 then ''-'' @ str_nat (nat (- i)) else str_nat (nat i))"

text \<open>
  Line 236: \<^verbatim>\<open>[inv_events[e] for e in epochs.events[:, -1]]\<close>.
\<close>

fun labels_of :: "(int \<times> string) list \<Rightarrow> int list \<Rightarrow> error + string list" where
  "labels_of inv_events [] = Inr []"
| "labels_of inv_events (c # cs) =
     and_then (dict_get inv_events c str_int) (\<lambda>l.
     and_then (labels_of inv_events cs) (\<lambda>ls. Inr (l # ls)))"

text \<open>
  The metadata table is a pandas DataFrame; a row carries the three columns the
  aggregator stamps. \<^verbatim>\<open>pd.DataFrame(index=range(n))\<close> has \<open>n\<close> rows and no
  column yet.
\<close>

record meta_row =
  subject :: "int option"
  session :: "string option"
  run :: "string option"

definition DataFrame_index :: "nat \<Rightarrow> meta_row list" where
  "DataFrame_index n = replicate n \<lparr>subject = None, session = None, run = None\<rparr>"

text \<open>
  Lines 239 to 243: the feature output. With \<^verbatim>\<open>return_epochs\<close> the list of
  per-band \<^verbatim>\<open>Epochs\<close> is returned as it is.
\<close>

fun the_arrays :: "xval list \<Rightarrow> error + ndarray list" where
  "the_arrays [] = Inr []"
| "the_arrays (Arr a # xs) = and_then (the_arrays xs) (\<lambda>as. Inr (a # as))"
| "the_arrays (x # xs) = Inl (TypeError ''not an array'')"

definition assemble_X :: "bool \<Rightarrow> nat \<Rightarrow> xval list \<Rightarrow> error + xval" where
  "assemble_X return_epochs n_filters X =
     (if \<not> return_epochs then
        (if n_filters = 1 then
           (case X of [] \<Rightarrow> Inl (IndexError ''list index out of range'') | x # rest \<Rightarrow> Inr x)
         else and_then (the_arrays X) (\<lambda>as.
              and_then (np_stack_transpose as) (\<lambda>a. Inr (Arr a))))
      else Inr (Lst X))"

text \<open>
  What \<^verbatim>\<open>process_raw\<close> returns when it does not return \<^verbatim>\<open>None\<close>:
  \<^verbatim>\<open>X, labels, metadata\<close> and a fourth component, which for the P300 paradigm is
  \<^verbatim>\<open>(runs, events, epoching_kwargs)\<close>.
\<close>

type_synonym 'aux processed = "xval \<times> string list \<times> meta_row list \<times> 'aux"

type_synonym p300_aux = "raw option list \<times> event list \<times> epoching_kwargs"

text \<open>
  Lines 143 to 246 of \<^verbatim>\<open>BaseP300.process_raw\<close>, after the blink annotations.
\<close>

definition p300_process_events ::
  "mne \<Rightarrow> BaseP300 \<Rightarrow> raw \<Rightarrow> dataset \<Rightarrow> bool \<Rightarrow> bool \<Rightarrow>
   (string \<times> event_code) list \<Rightarrow> event list \<Rightarrow> nat list \<Rightarrow> error + p300_aux processed" where
  "p300_process_events lib self rw ds return_epochs return_runs eid evs picks =
     (let tmin' = tmin self + fst (interval ds);
          tmax' = (case tmax self of
                     None \<Rightarrow> snd (interval ds)
                   | Some t \<Rightarrow> t + fst (interval ds))
      in
      if (case reject_tmax self of None \<Rightarrow> False | Some r \<Rightarrow> r \<ge> snd (interval ds))
      then Inl (ValueError ''reject_tmax needs to be shorter than tmax'')
      else
        and_then (p300_bands lib self rw ds evs eid picks tmin' tmax' return_epochs return_runs
                    (filters self)
                    \<lparr>bs_X = [], bs_runs = [], bs_epochs = None, bs_kwargs = None\<rparr>) (\<lambda>st.
        and_then (invert_event_id eid []) (\<lambda>inv_events.
        and_then (case bs_epochs st of
                    None \<Rightarrow> Inl (NameError ''epochs'')
                  | Some ep \<Rightarrow> labels_of inv_events (map ev_code (ep_events ep))) (\<lambda>labels.
        and_then (assemble_X return_epochs (length (filters self)) (bs_X st)) (\<lambda>X.
        and_then (case bs_kwargs st of
                    None \<Rightarrow> Inl (NameError ''epoching_kwargs'')
                  | Some kw \<Rightarrow> Inr kw) (\<lambda>kw.
          Inr (X, labels, DataFrame_index (length labels), (bs_runs st, evs, kw))))))))"

definition p300_process_annotated ::
  "mne \<Rightarrow> BaseP300 \<Rightarrow> raw \<Rightarrow> dataset \<Rightarrow> bool \<Rightarrow> bool \<Rightarrow> error + p300_aux processed option" where
  "p300_process_annotated lib self rw ds return_epochs return_runs =
     and_then (find_all_events lib rw) (\<lambda>evs.
     and_then (pick_channel_indices lib self rw) (\<lambda>picks.
     and_then (used_events self ds) (\<lambda>eid.
     and_then (select_events lib eid evs) (\<lambda>selected.
       case selected of
         None \<Rightarrow> Inr None
       | Some (eid, evs) \<Rightarrow>
           and_then (p300_process_events lib self rw ds return_epochs return_runs eid evs picks)
             (\<lambda>res. Inr (Some res))))))"

text \<open>
  \<^verbatim>\<open>BaseP300.process_raw\<close>. The first component of the result is the recording
  that was passed in, as the call leaves it: \<^verbatim>\<open>set_annotations\<close> is the only
  call that writes to it. The second is the exception raised, the sentinel
  \<^verbatim>\<open>None\<close>, or the tuple returned.
\<close>

definition process_raw ::
  "mne \<Rightarrow> BaseP300 \<Rightarrow> raw \<Rightarrow> dataset \<Rightarrow> bool \<Rightarrow> bool \<Rightarrow>
   raw \<times> (error + p300_aux processed option)" where
  "process_raw lib self rw ds return_epochs return_runs =
     (case annotate_blinks lib self rw of
        Inl e \<Rightarrow> (rw, Inl e)
      | Inr rw' \<Rightarrow> (rw', p300_process_annotated lib self rw' ds return_epochs return_runs))"

section \<open>The base paradigm: processing one recording\<close>

text \<open>
  \<^verbatim>\<open>BaseParadigm.process_raw\<close> (base.py, lines 70 to 201), the method
  \<^verbatim>\<open>BaseP300\<close> overrides. It reads the attributes \<^verbatim>\<open>channels\<close>,
  \<^verbatim>\<open>tmin\<close>, \<^verbatim>\<open>tmax\<close>, \<^verbatim>\<open>filters\<close>, \<^verbatim>\<open>baseline\<close> and
  \<^verbatim>\<open>resample\<close> of \<^verbatim>\<open>self\<close> and calls \<^verbatim>\<open>self.used_events\<close>, so the
  model takes the same configuration record. The call to \<^verbatim>\<open>log.warning\<close> has no
  effect on the result and is left out.
\<close>

text \<open>
  Lines 110 to 120: the event stream; a ValueError of
  \<^verbatim>\<open>events_from_annotations\<close> becomes the sentinel.
\<close>

definition base_find_events ::
  "mne \<Rightarrow> raw \<Rightarrow> (string \<times> event_code) list \<Rightarrow> error + event list option" where
  "base_find_events lib rw eid =
     (if length (mne_get_stim_channel lib rw) > 0
      then and_then (mne_find_events lib rw) (\<lambda>evs. Inr (Some evs))
      else except_ValueError_return (mne_events_from_annotations lib rw (Some eid)))"

text \<open>Lines 123 to 128.\<close>

definition base_picks :: "mne \<Rightarrow> BaseP300 \<Rightarrow> raw \<Rightarrow> error + nat list" where
  "base_picks lib self rw =
     (case channels self of
        None \<Rightarrow> mne_pick_types lib rw []
      | Some cs \<Rightarrow> mne_pick_channels lib (ch_names rw) cs)"

text \<open>
  Lines 154 to 178: the keyword arguments of \<^verbatim>\<open>mne.Epochs\<close>. The window passed
  is \<^verbatim>\<open>bmin\<close> to \<^verbatim>\<open>bmax\<close>; no rejection window is passed, and
  \<^verbatim>\<open>reject_by_annotation\<close> keeps MNE's default \<^verbatim>\<open>True\<close>.
\<close>

definition base_epoching_kwargs ::
  "BaseP300 \<Rightarrow> dataset \<Rightarrow> (string \<times> event_code) list \<Rightarrow> nat list \<Rightarrow> real \<Rightarrow> real \<Rightarrow>
   epoching_kwargs" where
  "base_epoching_kwargs self ds eid picks tmin' tmax' =
     (let bl = shifted_baseline self ds;
          bmin = bmin_of bl tmin';
          bmax = bmax_of bl tmax'
      in \<lparr>kw_event_id = eid,
          kw_tmin = bmin,
          kw_tmax = bmax,
          kw_reject_tmin = None,
          kw_reject_tmax = None,
          kw_baseline = bl,
          kw_picks = picks,
          kw_reject_by_annotation = EogTrue,
          kw_event_repeated = ''drop''\<rparr>)"

text \<open>Lines 146 to 189: one iteration of the loop over the filter bank.\<close>

definition base_band ::
  "mne \<Rightarrow> BaseP300 \<Rightarrow> raw \<Rightarrow> dataset \<Rightarrow> event list \<Rightarrow> (string \<times> event_code) list \<Rightarrow>
   nat list \<Rightarrow> real \<Rightarrow> real \<Rightarrow> real \<times> real \<Rightarrow> error + (raw \<times> epochs)" where
  "base_band lib self rw ds evs eid picks tmin' tmax' bandpass =
     (let fmin = fst bandpass; fmax = snd bandpass in
      and_then (mne_filter lib rw fmin fmax picks) (\<lambda>raw_f.
        let bl = shifted_baseline self ds;
            bmin = bmin_of bl tmin';
            bmax = bmax_of bl tmax'
        in
        and_then (mne_Epochs lib raw_f evs (base_epoching_kwargs self ds eid picks tmin' tmax')) (\<lambda>ep.
        and_then (if bmin < tmin' \<or> bmax > tmax' then mne_crop lib ep tmin' tmax' else Inr ep) (\<lambda>ep.
        and_then (case resample self of
                    None \<Rightarrow> Inr ep
                  | Some rate \<Rightarrow> mne_resample lib ep rate) (\<lambda>ep.
          Inr (raw_f, ep))))))"

text \<open>
  The loop state: \<^verbatim>\<open>X\<close>, \<^verbatim>\<open>runs\<close> (appended to only with
  \<^verbatim>\<open>return_runs\<close>) and the variable \<^verbatim>\<open>epochs\<close>.
\<close>

fun base_bands ::
  "mne \<Rightarrow> BaseP300 \<Rightarrow> raw \<Rightarrow> dataset \<Rightarrow> event list \<Rightarrow> (string \<times> event_code) list \<Rightarrow>
   nat list \<Rightarrow> real \<Rightarrow> real \<Rightarrow> bool \<Rightarrow> bool \<Rightarrow> (real \<times> real) list \<Rightarrow>
   xval list \<times> raw list \<times> epochs option \<Rightarrow> error + (xval list \<times> raw list \<times> epochs option)" where
  "base_bands lib self rw ds evs eid picks tmin' tmax' return_epochs return_runs [] st = Inr st"
| "base_bands lib self rw ds evs eid picks tmin' tmax' return_epochs return_runs (bandpass # bands) (X, runs, last_epochs) =
     and_then (base_band lib self rw ds evs eid picks tmin' tmax' bandpass) (\<lambda>(raw_f, ep).
       base_bands lib self rw ds evs eid picks tmin' tmax' return_epochs return_runs bands
         (X @ [if return_epochs then Epo ep else Arr (nd_scale (unit_factor ds) (ep_get_data ep))],
          if return_runs then runs @ [raw_f] else runs,
          Some ep))"

text \<open>
  Lines 194 to 198: one band gives \<^verbatim>\<open>X[0]\<close>, whatever the flags; otherwise the
  list is stacked. Stacking a list of \<^verbatim>\<open>Epochs\<close> objects (several bands with
  \<^verbatim>\<open>return_epochs\<close>) is outside the array model and stands as a TypeError.
\<close>

definition base_assemble_X :: "nat \<Rightarrow> xval list \<Rightarrow> error + xval" where
  "base_assemble_X n_filters X =
     (if n_filters = 1 then
        (case X of [] \<Rightarrow> Inl (IndexError ''list index out of range'') | x # rest \<Rightarrow> Inr x)
      else and_then (the_arrays X) (\<lambda>as.
           and_then (np_stack_transpose as) (\<lambda>a. Inr (Arr a))))"

definition base_process_raw ::
  "mne \<Rightarrow> BaseP300 \<Rightarrow> raw \<Rightarrow> dataset \<Rightarrow> bool \<Rightarrow> bool \<Rightarrow>
   error + (raw list) processed option" where
  "base_process_raw lib self rw ds return_epochs return_runs =
     and_then (used_events self ds) (\<lambda>eid.
     and_then (base_find_events lib rw eid) (\<lambda>found.
       case found of
         None \<Rightarrow> Inr None
       | Some evs \<Rightarrow>
     and_then (base_picks lib self rw) (\<lambda>picks.
     and_then (except_RuntimeError_return (mne_pick_events lib evs (map snd eid))) (\<lambda>selected.
       case selected of
         None \<Rightarrow> Inr None
       | Some evs \<Rightarrow>
           (let tmin' = tmin self + fst (interval ds);
                tmax' = (case tmax self of
                           None \<Rightarrow> snd (interval ds)
                         | Some t \<Rightarrow> t + fst (interval ds))
            in
            and_then (base_bands lib self rw ds evs eid picks tmin' tmax' return_epochs return_runs
                        (filters self) ([], [], None)) (\<lambda>(X, runs, last_epochs).
            and_then (invert_event_id eid []) (\<lambda>inv_events.
            and_then (case last_epochs of
                        None \<Rightarrow> Inl (NameError ''epochs'')
                      | Some ep \<Rightarrow> labels_of inv_events (map ev_code (ep_events ep))) (\<lambda>labels.
            and_then (base_assemble_X (length (filters self)) X) (\<lambda>X.
              Inr (Some (X, labels, DataFrame_index (length labels), runs)))))))))))"

section \<open>The aggregator: get_data\<close>

text \<open>
  \<^verbatim>\<open>len(v)\<close> and \<^verbatim>\<open>v[0]\<close> on a feature value, and the two ways
  \<^verbatim>\<open>get_data\<close> grows \<^verbatim>\<open>X\<close>: \<^verbatim>\<open>X.append(x)\<close> on a list and
  \<^verbatim>\<open>np.append(X, x, axis=0)\<close>. The latter is modelled on arrays; on any other
  operand it stands as a TypeError (neither \<^verbatim>\<open>process_raw\<close> returns anything
  but an array when \<^verbatim>\<open>return_epochs\<close> is false).
\<close>

fun py_len :: "xval \<Rightarrow> error + nat" where
  "py_len (Arr a) = nd_len a"
| "py_len (Epo e) = Inr (ep_len e)"
| "py_len (Lst xs) = Inr (length xs)"

fun py_getitem0 :: "xval \<Rightarrow> error + xval" where
  "py_getitem0 (Arr a) = and_then (nd_getitem0 a) (\<lambda>b. Inr (Arr b))"
| "py_getitem0 (Epo e) = and_then (ep_getitem0 e) (\<lambda>e0. Inr (Epo e0))"
| "py_getitem0 (Lst []) = Inl (IndexError ''list index out of range'')"
| "py_getitem0 (Lst (x # xs)) = Inr x"

fun list_append :: "xval \<Rightarrow> xval \<Rightarrow> error + xval" where
  "list_append (Lst xs) x = Inr (Lst (xs @ [x]))"
| "list_append X x = Inl (AttributeError ''object has no attribute append'')"

fun np_append :: "xval \<Rightarrow> xval \<Rightarrow> error + xval" where
  "np_append (Arr a) (Arr b) = and_then (np_append_axis0 a b) (\<lambda>c. Inr (Arr c))"
| "np_append X x = Inl (TypeError ''np.append: not an array'')"

text \<open>What a call of \<^verbatim>\<open>get_data\<close> does besides returning, in order.\<close>

datatype effect =
    Printed string
  | PrintedError error
  | IsValidCalled
  | DatasetGetDataCalled
  | PrepareProcessCalled
  | ProcessRawCalled int string string

text \<open>
  The accumulators of the loop (lines 268 to 271). \<^verbatim>\<open>metadata\<close> is a list of
  tables until \<^verbatim>\<open>pd.concat\<close> joins them.
\<close>

record 'aux accumulators =
  acc_X :: xval
  acc_labels :: "string list"
  acc_metadata :: "meta_row list list"
  acc_processed_runs :: "'aux list"

text \<open>Lines 285 to 287: the three columns the aggregator writes into every row.\<close>

definition stamp :: "int \<Rightarrow> string \<Rightarrow> string \<Rightarrow> meta_row list \<Rightarrow> meta_row list" where
  "stamp subject' session' run' met =
     map (\<lambda>r. r\<lparr>subject := Some subject', session := Some session', run := Some run'\<rparr>) met"

text \<open>
  Lines 284 to 304: what the loop does with the tuple of one run. The result is what
  was printed and either the exception raised or the accumulators after the run.
\<close>

definition accumulate ::
  "bool \<Rightarrow> bool \<Rightarrow> int \<Rightarrow> string \<Rightarrow> string \<Rightarrow> 'aux processed \<Rightarrow> 'aux accumulators \<Rightarrow>
   effect list \<times> (error + 'aux accumulators)" where
  "accumulate return_epochs return_runs subject' session' run' proc acc =
     (case proc of (x, lbs, met, praw) \<Rightarrow>
        let met = stamp subject' session' run' met in
        case and_then (py_getitem0 x) py_len of
          Inl e \<Rightarrow> ([], Inl e)
        | Inr n \<Rightarrow>
            if n > 0 then
              ([],
               and_then (py_len (acc_X acc)) (\<lambda>len_X.
               and_then (if len_X > 0
                         then (if return_epochs then list_append (acc_X acc) x
                               else np_append (acc_X acc) x)
                         else Inr (if return_epochs then Lst [x] else x)) (\<lambda>X.
                 Inr \<lparr>acc_X = X,
                      acc_labels = (if len_X > 0 then acc_labels acc @ lbs else lbs),
                      acc_metadata = acc_metadata acc @ [met],
                      acc_processed_runs =
                        (if return_runs then acc_processed_runs acc @ [praw]
                         else acc_processed_runs acc)\<rparr>)))
            else
              ([Printed (''All epochs were removed in run '' @ run' @ ''. Are you sure this is right?'')],
               Inr acc))"

text \<open>
  Lines 272 to 274: the three nested loops visit the runs in the insertion order of
  the three dicts.
\<close>

definition traversal :: "recordings \<Rightarrow> (int \<times> string \<times> string \<times> raw) list" where
  "traversal data =
     concat (map (\<lambda>(subject', sessions).
       concat (map (\<lambda>(session', runs).
         map (\<lambda>(run', rw). (subject', session', run', rw)) runs) sessions)) data)"

text \<open>
  Lines 272 to 304. \<^verbatim>\<open>self.process_raw\<close> is dispatched on the paradigm, so it is
  a parameter; \<open>out\<close> collects the effects.
\<close>

fun get_data_loop ::
  "(raw \<Rightarrow> dataset \<Rightarrow> bool \<Rightarrow> bool \<Rightarrow> error + 'aux processed option) \<Rightarrow> dataset \<Rightarrow> bool \<Rightarrow> bool \<Rightarrow>
   (int \<times> string \<times> string \<times> raw) list \<Rightarrow> effect list \<Rightarrow> 'aux accumulators \<Rightarrow>
   effect list \<times> (error + 'aux accumulators)" where
  "get_data_loop proc_raw ds return_epochs return_runs [] out acc = (out, Inr acc)"
| "get_data_loop proc_raw ds return_epochs return_runs ((subject', session', run', rw) # rest) out acc =
     (let out = out @ [ProcessRawCalled subject' session' run'] in
      case proc_raw rw ds return_epochs return_runs of
        Inl e \<Rightarrow> (out, Inl e)
      | Inr None \<Rightarrow> get_data_loop proc_raw ds return_epochs return_runs rest out acc
      | Inr (Some proc) \<Rightarrow>
          (case accumulate return_epochs return_runs subject' session' run' proc acc of
             (msgs, Inl e) \<Rightarrow> (out @ msgs, Inl e)
           | (msgs, Inr acc') \<Rightarrow>
               get_data_loop proc_raw ds return_epochs return_runs rest (out @ msgs) acc'))"

text \<open>
  Lines 306 to 311: \<^verbatim>\<open>pd.concat\<close> raises ValueError on an empty list; with
  \<^verbatim>\<open>return_epochs\<close>, the first band of every run is kept when the runs are lists,
  and \<^verbatim>\<open>mne.concatenate_epochs\<close> joins them.
\<close>

fun all_or_error :: "(error + 'a) list \<Rightarrow> error + 'a list" where
  "all_or_error [] = Inr []"
| "all_or_error (r # rs) = and_then r (\<lambda>x. and_then (all_or_error rs) (\<lambda>xs. Inr (x # xs)))"

fun the_epochs :: "xval list \<Rightarrow> error + epochs list" where
  "the_epochs [] = Inr []"
| "the_epochs (Epo e # xs) = and_then (the_epochs xs) (\<lambda>es. Inr (e # es))"
| "the_epochs (x # xs) = Inl (TypeError ''epochs_list must contain Epochs'')"

definition first_bands :: "xval \<Rightarrow> error + xval list" where
  "first_bands X =
     and_then (py_getitem0 X) (\<lambda>first.
       case X of
         Lst xs \<Rightarrow> (case first of
                      Lst ys \<Rightarrow> all_or_error (map py_getitem0 xs)
                    | Arr a \<Rightarrow> Inr xs
                    | Epo e \<Rightarrow> Inr xs)
       | Arr a \<Rightarrow> Inl (TypeError ''epochs_list must be a list'')
       | Epo e \<Rightarrow> Inl (TypeError ''epochs_list must be a list''))"

definition combine ::
  "mne \<Rightarrow> bool \<Rightarrow> 'aux accumulators \<Rightarrow> error + (xval \<times> string list \<times> meta_row list \<times> 'aux list)" where
  "combine lib return_epochs acc =
     (if acc_metadata acc = [] then Inl (ValueError ''No objects to concatenate'')
      else
        let metadata = concat (acc_metadata acc) in
        and_then (if return_epochs
                  then and_then (first_bands (acc_X acc)) (\<lambda>X.
                       and_then (the_epochs X) (\<lambda>eps.
                       and_then (mne_concatenate_epochs lib eps) (\<lambda>e. Inr (Epo e))))
                  else Inr (acc_X acc)) (\<lambda>X.
          Inr (X, acc_labels acc, metadata, acc_processed_runs acc)))"

text \<open>
  The cache directory: a file holds the pickled dict with the keys \<^verbatim>\<open>labels\<close>,
  \<^verbatim>\<open>metadata\<close> and \<^verbatim>\<open>X\<close>, or something \<^verbatim>\<open>pickle.load\<close> and the three
  lookups do not get through. \<open>write_fails\<close> is the exception writing would raise,
  if any. \<^verbatim>\<open>os.makedirs\<close> is taken to succeed.
\<close>

datatype pickle = Pickled xval "string list" "meta_row list" | Unreadable

record storage =
  cache_files :: "string \<Rightarrow> pickle option"
  write_fails :: "error option"

fun str_int_items :: "int list \<Rightarrow> string" where
  "str_int_items [] = []"
| "str_int_items [i] = str_int i"
| "str_int_items (i # is) = str_int i @ '', '' @ str_int_items is"

definition str_subjects :: "int list option \<Rightarrow> string" where
  "str_subjects subjects =
     (case subjects of None \<Rightarrow> ''None'' | Some is \<Rightarrow> ''['' @ str_int_items is @ '']'')"

definition cache_path :: "dataset \<Rightarrow> int list option \<Rightarrow> string" where
  "cache_path ds subjects =
     ''/tmp/moabb/cache/'' @ class_name ds @ ''_'' @ str_subjects subjects @ ''.pkl''"

definition read_cache :: "storage \<Rightarrow> string \<Rightarrow> error + (xval \<times> string list \<times> meta_row list)" where
  "read_cache disk path =
     (case cache_files disk path of
        None \<Rightarrow> Inl (FileNotFoundError path)
      | Some Unreadable \<Rightarrow> Inl (UnpicklingError path)
      | Some (Pickled X labels metadata) \<Rightarrow> Inr (X, labels, metadata))"

text \<open>
  Lines 261 to 332 of \<^verbatim>\<open>get_data\<close>: everything after the attempt to read the
  cache. \<^verbatim>\<open>prepare_process\<close> does nothing in either class.
\<close>

definition get_data_fresh ::
  "mne \<Rightarrow> (dataset \<Rightarrow> bool) \<Rightarrow>
   (raw \<Rightarrow> dataset \<Rightarrow> bool \<Rightarrow> bool \<Rightarrow> error + 'aux processed option) \<Rightarrow>
   dataset \<Rightarrow> int list option \<Rightarrow> bool \<Rightarrow> bool \<Rightarrow> bool \<Rightarrow> storage \<Rightarrow>
   storage \<times> effect list \<times> (error + (xval \<times> string list \<times> meta_row list \<times> 'aux list option))" where
  "get_data_fresh lib valid proc_raw ds subjects return_epochs return_runs cache disk =
     (if \<not> valid ds
      then (disk, [IsValidCalled],
            Inl (AssertionError (''Dataset '' @ code ds @ '' is not valid for paradigm'')))
      else
        case dataset_get_data ds subjects of
          Inl e \<Rightarrow> (disk, [IsValidCalled, DatasetGetDataCalled], Inl e)
        | Inr data \<Rightarrow>
            (case get_data_loop proc_raw ds return_epochs return_runs (traversal data)
                    [IsValidCalled, DatasetGetDataCalled, PrepareProcessCalled]
                    \<lparr>acc_X = Lst [], acc_labels = [], acc_metadata = [], acc_processed_runs = []\<rparr> of
               (out, Inl e) \<Rightarrow> (disk, out, Inl e)
             | (out, Inr acc) \<Rightarrow>
                 (case combine lib return_epochs acc of
                    Inl e \<Rightarrow> (disk, out, Inl e)
                  | Inr (X, labels, metadata, processed_runs) \<Rightarrow>
                      if cache then
                        (case write_fails disk of
                           Some e \<Rightarrow>
                             (disk, out @ [Printed ''Could not store cached data'', PrintedError e],
                              Inr (X, labels, metadata, Some processed_runs))
                         | None \<Rightarrow>
                             (disk\<lparr>cache_files := (cache_files disk)
                                     (cache_path ds subjects := Some (Pickled X labels metadata))\<rparr>,
                              out, Inr (X, labels, metadata, Some processed_runs)))
                      else (disk, out, Inr (X, labels, metadata, Some processed_runs)))))"

text \<open>
  \<^verbatim>\<open>BaseParadigm.get_data\<close> (base.py, lines 203 to 332). The result is the cache
  directory after the call, the effects in order, and the exception raised or the
  tuple returned; the fourth component of the tuple is \<open>None\<close> for Python's
  \<^verbatim>\<open>None\<close>.
\<close>

definition get_data ::
  "mne \<Rightarrow> (dataset \<Rightarrow> bool) \<Rightarrow>
   (raw \<Rightarrow> dataset \<Rightarrow> bool \<Rightarrow> bool \<Rightarrow> error + 'aux processed option) \<Rightarrow>
   dataset \<Rightarrow> int list option \<Rightarrow> bool \<Rightarrow> bool \<Rightarrow> bool \<Rightarrow> storage \<Rightarrow>
   storage \<times> effect list \<times> (error + (xval \<times> string list \<times> meta_row list \<times> 'aux list option))" where
  "get_data lib valid proc_raw ds subjects return_epochs return_runs cache disk =
     (if cache then
        (case read_cache disk (cache_path ds subjects) of
           Inr (X, labels, metadata) \<Rightarrow>
             (disk,
              [Printed ''Using cached data: Beware that it might not be the data you want!''],
              Inr (X, labels, metadata, None))
         | Inl e \<Rightarrow>
             (case get_data_fresh lib valid proc_raw ds subjects return_epochs return_runs cache disk of
                (disk', out, res) \<Rightarrow>
                  (disk',
                   [Printed ''Could not read cached data. Preprocessing from scratch.'',
                    PrintedError e] @ out,
                   res)))
      else get_data_fresh lib valid proc_raw ds subjects return_epochs return_runs cache disk)"

text \<open>
  \<^verbatim>\<open>get_data\<close> on a P300 paradigm: \<^verbatim>\<open>self.is_valid\<close> and
  \<^verbatim>\<open>self.process_raw\<close> are those of \<^verbatim>\<open>BaseP300\<close>. \<^verbatim>\<open>get_data\<close> does
  not read a recording again after \<^verbatim>\<open>process_raw\<close> has returned.
\<close>

definition p300_get_data ::
  "mne \<Rightarrow> BaseP300 \<Rightarrow> dataset \<Rightarrow> int list option \<Rightarrow> bool \<Rightarrow> bool \<Rightarrow> bool \<Rightarrow> storage \<Rightarrow>
   storage \<times> effect list \<times> (error + (xval \<times> string list \<times> meta_row list \<times> p300_aux list option))" where
  "p300_get_data lib self =
     get_data lib (is_valid self) (\<lambda>rw ds return_epochs return_runs.
       snd (process_raw lib self rw ds return_epochs return_runs))"

section \<open>A simulated MNE and sample recordings\<close>

text \<open>
  The worked examples below run the model on concrete recordings. They need an instance
  of the MNE interface; this one is deliberately small. Events come from the
  annotations that do not start with \<^verbatim>\<open>bad\<close> (a recording whose annotations are
  all of that kind raises ValueError, as \<^verbatim>\<open>events_from_annotations\<close> does); a
  band-pass scales the picked channels by a gain that depends on the band; a window
  holds the samples from \<^verbatim>\<open>tmin\<close> to \<^verbatim>\<open>tmax\<close> after its event and is dropped
  when it leaves the recording or, with \<^verbatim>\<open>reject_by_annotation\<close>, overlaps a
  \<^verbatim>\<open>bad\<close> annotation; \<^verbatim>\<open>drop_bad\<close> drops a window in which a sample exceeds
  the threshold in absolute value; the blink detector reports the samples of the EOG
  channel above 100 microvolts. No baseline correction is simulated.
\<close>

definition n_samples :: "raw \<Rightarrow> nat" where
  "n_samples rw = (case signal rw of [] \<Rightarrow> 0 | ch # rest \<Rightarrow> length ch)"

fun index_of :: "'a \<Rightarrow> 'a list \<Rightarrow> nat option" where
  "index_of x [] = None"
| "index_of x (y # ys) = (if x = y then Some 0 else map_option Suc (index_of x ys))"

definition sim_find_eog_events :: "raw \<Rightarrow> (string \<times> kwarg) list \<Rightarrow> error + event list" where
  "sim_find_eog_events rw kw =
     (let name = (case map_of kw ''ch_name'' of Some (KwStr s) \<Rightarrow> s | _ \<Rightarrow> ''EOG'') in
      case index_of name (ch_names rw) of
        None \<Rightarrow> Inl (RuntimeError ''No EOG channel found'')
      | Some c \<Rightarrow>
          Inr (map (\<lambda>i. (int i, 0, 998))
                 (filter (\<lambda>i. \<bar>signal rw ! c ! i\<bar> > 100 / 1000000) [0 ..< n_samples rw])))"

definition is_bad :: "annotation \<Rightarrow> bool" where
  "is_bad a = (take 3 (description a) = ''bad'')"

definition sim_events_from_annotations ::
  "raw \<Rightarrow> (string \<times> event_code) list option \<Rightarrow> error + event list" where
  "sim_events_from_annotations rw eid =
     (if annotations rw = [] then Inr []
      else
        let sel = filter (\<lambda>a. \<not> is_bad a) (annotations rw) in
        if sel = [] then Inl (ValueError ''Could not find any of the events you specified.'')
        else Inr (map (\<lambda>a. (\<lfloor>onset a * sfreq rw\<rfloor>, 0,
                              if description a = ''Target'' then 2 else 1)) sel))"

definition sim_pick_events :: "event list \<Rightarrow> event_code list \<Rightarrow> error + event list" where
  "sim_pick_events evs include =
     (let sel = filter (\<lambda>e. Single (ev_code e) \<in> set include) evs in
      if sel = [] then Inl (RuntimeError ''No events found'') else Inr sel)"

definition sim_merge_events :: "event list \<Rightarrow> int list \<Rightarrow> int \<Rightarrow> error + event list" where
  "sim_merge_events evs ids new_id =
     Inr (map (\<lambda>e. if ev_code e \<in> set ids then (fst e, fst (snd e), new_id) else e) evs)"

definition sim_filter :: "raw \<Rightarrow> real \<Rightarrow> real \<Rightarrow> nat list \<Rightarrow> error + raw" where
  "sim_filter rw fmin fmax picks =
     Inr (rw\<lparr>signal := map (\<lambda>c. if c \<in> set picks
                                  then map (\<lambda>v. v * (fmax - fmin) / 24) (signal rw ! c)
                                  else signal rw ! c) [0 ..< length (signal rw)]\<rparr>)"

definition overlaps_bad :: "raw \<Rightarrow> real \<Rightarrow> real \<Rightarrow> bool" where
  "overlaps_bad rw t0 t1 =
     list_ex (\<lambda>a. is_bad a \<and> onset a \<le> t1 \<and> t0 \<le> onset a + duration a) (annotations rw)"

definition sim_window ::
  "raw \<Rightarrow> epoching_kwargs \<Rightarrow> int \<Rightarrow> nat \<Rightarrow> event \<Rightarrow> (event \<times> real list list) list" where
  "sim_window rw kw first n e =
     (let start = ev_sample e + first;
          t = real_of_int (ev_sample e) / sfreq rw
      in
      if 0 \<le> start \<and> nat start + n \<le> n_samples rw \<and>
         (if truthy (kw_reject_by_annotation kw)
          then \<not> overlaps_bad rw (t + kw_tmin kw) (t + kw_tmax kw) else True)
      then [(e, map (\<lambda>c. take n (drop (nat start) (signal rw ! c))) (kw_picks kw))]
      else [])"

definition sim_Epochs :: "raw \<Rightarrow> event list \<Rightarrow> epoching_kwargs \<Rightarrow> error + epochs" where
  "sim_Epochs rw evs kw =
     (let first = \<lfloor>kw_tmin kw * sfreq rw\<rfloor>;
          n = nat (\<lfloor>kw_tmax kw * sfreq rw\<rfloor> - first + 1)
      in Inr \<lparr>ep_windows = concat (map (sim_window rw kw first n) evs),
              ep_nchan = length (kw_picks kw),
              ep_ntimes = n,
              ep_tmin = kw_tmin kw,
              ep_tmax = kw_tmax kw,
              ep_sfreq = sfreq rw\<rparr>)"

definition sim_drop_bad :: "epochs \<Rightarrow> real \<Rightarrow> error + epochs" where
  "sim_drop_bad ep threshold =
     Inr (ep\<lparr>ep_windows :=
            filter (\<lambda>w. list_all (list_all (\<lambda>v. \<bar>v\<bar> \<le> threshold)) (snd w)) (ep_windows ep)\<rparr>)"

definition sim_crop :: "epochs \<Rightarrow> real \<Rightarrow> real \<Rightarrow> error + epochs" where
  "sim_crop ep tmin' tmax' =
     (let skip = nat (\<lfloor>tmin' * ep_sfreq ep\<rfloor> - \<lfloor>ep_tmin ep * ep_sfreq ep\<rfloor>);
          n = nat (\<lfloor>tmax' * ep_sfreq ep\<rfloor> - \<lfloor>tmin' * ep_sfreq ep\<rfloor> + 1)
      in Inr (ep\<lparr>ep_windows :=
                  map (\<lambda>w. (fst w, map (\<lambda>ch. take n (drop skip ch)) (snd w))) (ep_windows ep),
                ep_ntimes := n, ep_tmin := tmin', ep_tmax := tmax'\<rparr>))"

definition sim_resample :: "epochs \<Rightarrow> real \<Rightarrow> error + epochs" where
  "sim_resample ep rate =
     (let n = nat \<lfloor>real (ep_ntimes ep) * rate / ep_sfreq ep\<rfloor> in
      Inr (ep\<lparr>ep_windows :=
                 map (\<lambda>w. (fst w,
                   map (\<lambda>ch. map (\<lambda>j. ch ! nat \<lfloor>real j * ep_sfreq ep / rate\<rfloor>) [0 ..< n]) (snd w)))
                 (ep_windows ep),
              ep_ntimes := n, ep_sfreq := rate\<rparr>))"

definition sim_concatenate_epochs :: "epochs list \<Rightarrow> error + epochs" where
  "sim_concatenate_epochs eps =
     (case eps of
        [] \<Rightarrow> Inl (ValueError ''epochs_list is empty'')
      | e # rest \<Rightarrow>
          if list_all (\<lambda>f. ep_nchan f = ep_nchan e \<and> ep_ntimes f = ep_ntimes e) rest
          then Inr (e\<lparr>ep_windows := concat (map ep_windows eps)\<rparr>)
          else Inl (ValueError ''epochs must have the same shape''))"

definition sim_mne :: mne where
  "sim_mne =
     \<lparr>mne_find_eog_events = sim_find_eog_events,
      mne_get_stim_channel = (\<lambda>rw. filter (\<lambda>c. c = ''STI 014'') (ch_names rw)),
      mne_find_events = (\<lambda>rw. Inr []),
      mne_events_from_annotations = sim_events_from_annotations,
      mne_pick_types =
        (\<lambda>rw include. Inr (filter (\<lambda>i. ch_names rw ! i = ''Cz'' \<or> ch_names rw ! i = ''Pz'')
                             [0 ..< length (ch_names rw)])),
      mne_pick_channels =
        (\<lambda>names include.
           Inr (concat (map (\<lambda>c. case index_of c names of None \<Rightarrow> [] | Some i \<Rightarrow> [i]) include))),
      mne_merge_events = sim_merge_events,
      mne_pick_events = sim_pick_events,
      mne_filter = sim_filter,
      mne_Epochs = sim_Epochs,
      mne_drop_bad = sim_drop_bad,
      mne_crop = sim_crop,
      mne_resample = sim_resample,
      mne_concatenate_epochs = sim_concatenate_epochs\<rparr>"

text \<open>
  Recordings of 2.5 seconds at 10 Hz with the channels Cz and EOG, given in microvolts.
  \<open>rec_two_events\<close> has a target at 0.2 s and a non-target at 1.2 s, a 60 microvolt
  peak inside the first window and a blink at 2.0 s; \<open>rec_loud\<close> has the same events
  on a signal of 100 microvolts throughout; the annotations of \<open>rec_only_bad\<close> are all
  marked bad, and \<open>rec_silent\<close> has none.
\<close>

definition microvolts :: "real list \<Rightarrow> real list" where
  "microvolts vs = map (\<lambda>v. v / 1000000) vs"

definition annot :: "real \<Rightarrow> string \<Rightarrow> annotation" where
  "annot t d = \<lparr>onset = t, duration = 0, description = d\<rparr>"

definition rec_two_events :: raw where
  "rec_two_events =
     \<lparr>ch_names = [''Cz'', ''EOG''], sfreq = 10,
      signal = [microvolts [1, 2, 3, 4, 5, 6, 7, 8, 60, 9, 2, 1, 0, 1, 2, 3, 2, 1, 0, 1, 2, 3, 4, 5, 6],
                microvolts [0, 0, 0, 0, 0, 0, 0, 0, 0, 0, 0, 0, 0, 0, 0, 0, 0, 0, 0, 0, 300, 0, 0, 0, 0]],
      annotations = [annot 0.2 ''Target'', annot 1.2 ''NonTarget'']\<rparr>"

definition rec_loud :: raw where
  "rec_loud =
     rec_two_events\<lparr>signal := [microvolts (replicate 25 100), microvolts (replicate 25 0)]\<rparr>"

definition rec_only_bad :: raw where
  "rec_only_bad = rec_two_events\<lparr>annotations := [annot 0.5 ''bad segment'']\<rparr>"

definition rec_silent :: raw where
  "rec_silent = rec_two_events\<lparr>annotations := []\<rparr>"

definition sample_dataset :: "recordings \<Rightarrow> dataset" where
  "sample_dataset data =
     \<lparr>paradigm = ''p300'',
      event_id = [(''Target'', Single 2), (''NonTarget'', Single 1)],
      interval = (0, 1),
      unit_factor = 1000000,
      code = ''Sample-P300'',
      class_name = ''SampleDataset'',
      dataset_get_data = (\<lambda>subjects. Inr data)\<rparr>"

text \<open>
  \<^verbatim>\<open>P300()\<close> with its defaults, and variants of it.
\<close>

definition p300_default :: BaseP300 where
  "p300_default =
     \<lparr>filters = [(1, 24)], events = Some [''Target'', ''NonTarget''], channels = None,
      baseline = None, resample = None, reject_uv = None, reject_from_eog = EogOff,
      tmin = 0, tmax = None, reject_tmin = None, reject_tmax = None\<rparr>"

definition empty_disk :: storage where
  "empty_disk = \<lparr>cache_files = (\<lambda>path. None), write_fails = None\<rparr>"

text \<open>
  Datasets over the sample recordings: one subject with two runs, and two subjects
  with one run each. \<open>cached_disk\<close> holds a pickle under the key of
  \<open>sample_dataset\<close> and the subjects \<^verbatim>\<open>[1, 2]\<close>.
\<close>

definition two_runs :: "raw \<Rightarrow> raw \<Rightarrow> dataset" where
  "two_runs first second =
     sample_dataset [(1, [(''session_0'', [(''run_0'', first), (''run_1'', second)])])]"

definition two_subjects :: dataset where
  "two_subjects =
     sample_dataset [(1, [(''session_0'', [(''run_0'', rec_two_events)])]),
                     (2, [(''session_0'', [(''run_0'', rec_two_events)])])]"

definition cached_disk :: storage where
  "cached_disk =
     \<lparr>cache_files = (\<lambda>path. if path = ''/tmp/moabb/cache/SampleDataset_[1, 2].pkl''
                               then Some (Pickled (Lst []) [''Target''] [])
                               else None),
      write_fails = None\<rparr>"

section \<open>Auxiliary notions for the proofs\<close>

text \<open>
  The position of a metadata row in a ranking of the subjects; rows that carry no
  subject rank first.
\<close>

definition row_rank :: "(int \<Rightarrow> nat) \<Rightarrow> meta_row \<Rightarrow> nat" where
  "row_rank rk r = (case subject r of None \<Rightarrow> 0 | Some s \<Rightarrow> rk s)"

text \<open>
  The state of the accumulators of \<^verbatim>\<open>get_data\<close> without \<^verbatim>\<open>return_epochs\<close>:
  nothing collected yet, or an array whose first axis counts the labels and the
  metadata rows and whose other axes satisfy \<open>P\<close>.
\<close>

definition arrays_aligned :: "(nat list \<Rightarrow> bool) \<Rightarrow> 'aux accumulators \<Rightarrow> bool" where
  "arrays_aligned P acc =
     (if acc_metadata acc = [] then acc_X acc = Lst [] \<and> acc_labels acc = []
      else (case acc_X acc of
              Arr a \<Rightarrow> (case shape a of
                          [] \<Rightarrow> False
                        | n # rest \<Rightarrow> n = length (acc_labels acc) \<and> P rest \<and>
                                     length (concat (acc_metadata acc)) = length (acc_labels acc) \<and> 0 < n)
            | Epo e \<Rightarrow> False
            | Lst xs \<Rightarrow> False))"

section \<open>Basic facts about the model\<close>

lemma and_then_Inr_iff: "and_then m f = Inr y \<longleftrightarrow> (\<exists>x. m = Inr x \<and> f x = Inr y)"
  by (cases m) auto

lemma labels_of_length: "labels_of inv_events cs = Inr ls \<Longrightarrow> length ls = length cs"
  by (induction cs arbitrary: ls) (auto simp: and_then_Inr_iff)

lemma the_arrays_map: "the_arrays (map (\<lambda>ep. Arr (f ep)) eps) = Inr (map f eps)"
  by (induction eps) auto

lemma np_stack_transpose_shape:
  assumes "np_stack_transpose as = Inr a"
  shows "as \<noteq> [] \<and> shape a = shape (last as) @ [length as] \<and> length (shape (last as)) = 3"
proof -
  from assms obtain b rest where as: "as = b # rest"
    by (cases as) (auto simp: np_stack_transpose_def)
  with assms have all: "list_all (\<lambda>c. shape c = shape b) rest" and three: "length (shape b) = 3"
    and a: "shape a = shape b @ [length as]"
    by (auto simp: np_stack_transpose_def split: if_splits)
  have "shape (last as) = shape b"
  proof (cases rest)
    case Nil
    with as show ?thesis by simp
  next
    case (Cons c cs)
    then have "last as \<in> set rest" using as by simp
    with all show ?thesis by (simp add: list_all_iff)
  qed
  with as a three show ?thesis by simp
qed

lemma p300_bands_result:
  assumes "p300_bands lib self rw ds evs eid picks tmin' tmax' return_epochs return_runs bands st = Inr st'"
  shows "\<exists>eps. length eps = length bands \<and>
           bs_X st' = bs_X st @ map (\<lambda>ep. if return_epochs then Epo ep
                                         else Arr (nd_scale (unit_factor ds) (ep_get_data ep))) eps \<and>
           bs_epochs st' = (if eps = [] then bs_epochs st else Some (last eps))"
  using assms
proof (induction bands arbitrary: st)
  case Nil
  then show ?case by simp
next
  case (Cons bandpass bands)
  from Cons.prems obtain raw_f ep epoching where
    step: "p300_band lib self rw ds evs eid picks tmin' tmax' bandpass = Inr (raw_f, ep, epoching)"
    and rest: "p300_bands lib self rw ds evs eid picks tmin' tmax' return_epochs return_runs bands
         \<lparr>bs_X = bs_X st @ [if return_epochs then Epo ep
                             else Arr (nd_scale (unit_factor ds) (ep_get_data ep))],
          bs_runs = bs_runs st @ [if return_runs then Some raw_f else None],
          bs_epochs = Some ep,
          bs_kwargs = Some epoching\<rparr> = Inr st'"
    by (auto simp: and_then_Inr_iff)
  from Cons.IH [OF rest] obtain eps where
    eps: "length eps = length bands"
      "bs_X st' = (bs_X st @ [if return_epochs then Epo ep
                             else Arr (nd_scale (unit_factor ds) (ep_get_data ep))]) @
                  map (\<lambda>ep. if return_epochs then Epo ep
                             else Arr (nd_scale (unit_factor ds) (ep_get_data ep))) eps"
      "bs_epochs st' = (if eps = [] then Some ep else Some (last eps))"
    by auto
  show ?case
    by (rule exI [of _ "ep # eps"]) (use eps in auto)
qed


text \<open>What the arrays of the bands look like once assembled.\<close>

lemma assembled_arrays:
  assumes eps: "eps \<noteq> []"
    and X: "(if length eps = 1
             then (case map (\<lambda>ep. Arr (nd_scale u (ep_get_data ep))) eps of
                     [] \<Rightarrow> Inl (IndexError ''list index out of range'') | x # rest \<Rightarrow> Inr x)
             else and_then (the_arrays (map (\<lambda>ep. Arr (nd_scale u (ep_get_data ep))) eps)) (\<lambda>as.
                  and_then (np_stack_transpose as) (\<lambda>a. Inr (Arr a)))) = Inr X"
  shows "\<exists>a. X = Arr a \<and>
           shape a = (if length eps = 1
                      then [length (ep_windows (last eps)), ep_nchan (last eps), ep_ntimes (last eps)]
                      else [length (ep_windows (last eps)), ep_nchan (last eps), ep_ntimes (last eps),
                            length eps])"
proof (cases "length eps = 1")
  case True
  then obtain ep where "eps = [ep]" by (cases eps) auto
  with X show ?thesis by (auto simp: nd_scale_def ep_get_data_def)
next
  case False
  with X obtain a where st: "np_stack_transpose (map (\<lambda>ep. nd_scale u (ep_get_data ep)) eps) = Inr a"
    and Xa: "X = Arr a"
    by (auto simp: the_arrays_map and_then_Inr_iff)
  from np_stack_transpose_shape [OF st] eps
  have "shape a = shape (nd_scale u (ep_get_data (last eps))) @ [length eps]"
    by (simp add: last_map)
  with False Xa show ?thesis by (simp add: nd_scale_def ep_get_data_def)
qed

lemma p300_process_events_arrays:
  assumes "p300_process_events lib self rw ds False return_runs eid evs picks = Inr (X, labels, met, aux)"
  shows "\<exists>a c s. X = Arr a \<and> length met = length labels \<and>
           shape a = (if length (filters self) = 1 then [length labels, c, s]
                      else [length labels, c, s, length (filters self)])"
proof -
  from assms obtain st inv_events where
    bands: "p300_bands lib self rw ds evs eid picks (tmin self + fst (interval ds))
              (case tmax self of None \<Rightarrow> snd (interval ds) | Some t \<Rightarrow> t + fst (interval ds))
              False return_runs (filters self)
              \<lparr>bs_X = [], bs_runs = [], bs_epochs = None, bs_kwargs = None\<rparr> = Inr st"
    and labels: "(case bs_epochs st of None \<Rightarrow> Inl (NameError ''epochs'')
                  | Some ep \<Rightarrow> labels_of inv_events (map ev_code (ep_events ep))) = Inr labels"
    and X: "assemble_X False (length (filters self)) (bs_X st) = Inr X"
    and met: "met = DataFrame_index (length labels)"
    by (auto simp: p300_process_events_def Let_def and_then_Inr_iff split: if_splits)
  from p300_bands_result [OF bands] obtain eps where
    eps: "length eps = length (filters self)"
      "bs_X st = map (\<lambda>ep. Arr (nd_scale (unit_factor ds) (ep_get_data ep))) eps"
      "bs_epochs st = (if eps = [] then None else Some (last eps))"
    by auto
  from labels eps(3) have ne: "eps \<noteq> []" by (auto split: if_splits)
  with labels eps(3) have "length labels = length (ep_windows (last eps))"
    by (auto dest: labels_of_length simp: ep_events_def)
  moreover from assembled_arrays [OF ne, of "unit_factor ds" X] X eps
  obtain a where "X = Arr a"
    "shape a = (if length eps = 1
                then [length (ep_windows (last eps)), ep_nchan (last eps), ep_ntimes (last eps)]
                else [length (ep_windows (last eps)), ep_nchan (last eps), ep_ntimes (last eps),
                      length eps])"
    by (auto simp: assemble_X_def)
  ultimately show ?thesis using eps(1) met by (auto simp: DataFrame_index_def)
qed

lemma process_annotated_Some:
  assumes "p300_process_annotated lib self rw ds return_epochs return_runs = Inr (Some res)"
  shows "\<exists>eid evs picks. p300_process_events lib self rw ds return_epochs return_runs eid evs picks = Inr res"
  using assms
  by (fastforce simp: p300_process_annotated_def and_then_Inr_iff split: option.splits)

lemma process_raw_Some:
  assumes "snd (process_raw lib self rw ds return_epochs return_runs) = Inr (Some res)"
  shows "\<exists>rw' eid evs picks. p300_process_events lib self rw' ds return_epochs return_runs eid evs picks = Inr res"
  using assms
  by (fastforce simp: process_raw_def split: sum.splits dest: process_annotated_Some)


lemma reject_tmax_check:
  assumes "reject_tmax self = Some r" and "snd (interval ds) \<le> r"
  shows "p300_process_events lib self rw ds return_epochs return_runs eid evs picks =
           Inl (ValueError ''reject_tmax needs to be shorter than tmax'')"
  using assms by (simp add: p300_process_events_def Let_def)

lemma get_data_fresh_invalid:
  "\<not> valid ds \<Longrightarrow>
   get_data_fresh lib valid proc_raw ds subjects return_epochs return_runs cache disk =
     (disk, [IsValidCalled],
      Inl (AssertionError (''Dataset '' @ code ds @ '' is not valid for paradigm'')))"
  by (simp add: get_data_fresh_def)

lemma is_valid_iff:
  "is_valid self ds \<longleftrightarrow>
     paradigm ds = ''p300'' \<and>
     (case events self of None \<Rightarrow> True | Some evs \<Rightarrow> set evs \<subseteq> fst ` set (event_id ds))"
  by (auto simp: is_valid_def Let_def split: option.splits list.splits)

lemma get_data_fresh_returns:
  assumes "get_data_fresh lib valid proc_raw ds subjects return_epochs return_runs cache disk =
             (disk', out, Inr (X, labels, metadata, processed_runs))"
  shows "\<exists>data out' acc.
           dataset_get_data ds subjects = Inr data \<and>
           get_data_loop proc_raw ds return_epochs return_runs (traversal data)
             [IsValidCalled, DatasetGetDataCalled, PrepareProcessCalled]
             \<lparr>acc_X = Lst [], acc_labels = [], acc_metadata = [], acc_processed_runs = []\<rparr>
             = (out', Inr acc) \<and>
           (\<exists>runs. combine lib return_epochs acc = Inr (X, labels, metadata, runs))"
  using assms
  by (auto simp: get_data_fresh_def split: if_splits sum.splits prod.splits option.splits)

lemma combine_metadata:
  "combine lib return_epochs acc = Inr (X, labels, metadata, runs) \<Longrightarrow>
   metadata = concat (acc_metadata acc) \<and> labels = acc_labels acc \<and>
   (\<not> return_epochs \<longrightarrow> X = acc_X acc)"
  by (auto simp: combine_def Let_def and_then_Inr_iff split: if_splits)

lemma get_data_miss:
  assumes "cache \<longrightarrow> (\<exists>e. read_cache disk (cache_path ds subjects) = Inl e)"
    and "get_data lib valid proc_raw ds subjects return_epochs return_runs cache disk = (disk', out, res)"
  shows "\<exists>pre out0. out = pre @ out0 \<and>
           get_data_fresh lib valid proc_raw ds subjects return_epochs return_runs cache disk =
             (disk', out0, res)"
proof (cases cache)
  case False
  with assms(2) show ?thesis
    by (intro exI [of _ "[]"] exI [of _ out]) (simp add: get_data_def)
next
  case True
  with assms(1) obtain e where "read_cache disk (cache_path ds subjects) = Inl e" by blast
  with True assms(2) show ?thesis
    by (auto simp: get_data_def split: prod.splits)
qed

text \<open>
  Without \<^verbatim>\<open>return_epochs\<close>, the loop of \<^verbatim>\<open>get_data\<close> keeps the feature
  array, the labels and the metadata rows aligned, provided \<^verbatim>\<open>process_raw\<close>
  returns them aligned.
\<close>

lemma stamp_length: "length (stamp s e r met) = length met"
  by (simp add: stamp_def)

lemma accumulate_aligned:
  assumes acc: "accumulate False return_runs s e r (Arr a, lbs, met, praw) acc = (msgs, Inr acc')"
    and x: "shape a = length lbs # rest" "P rest" "length met = length lbs"
    and inv: "arrays_aligned P acc"
  shows "arrays_aligned P acc'"
proof (cases "length lbs = 0")
  case True
  with acc x show ?thesis by (simp add: accumulate_def nd_getitem0_def)
next
  case False
  with x have first: "and_then (py_getitem0 (Arr a)) py_len = Inr n \<Longrightarrow> True" for n by simp
  obtain n where n: "and_then (py_getitem0 (Arr a)) py_len = Inr n"
    using acc by (auto simp: accumulate_def split: sum.splits)
  show ?thesis
  proof (cases "0 < n")
    case False
    with acc n inv show ?thesis by (simp add: accumulate_def)
  next
    case True
    show ?thesis
    proof (cases "acc_metadata acc = []")
      case True
      with inv have e: "acc_X acc = Lst []" "acc_labels acc = []"
        by (auto simp: arrays_aligned_def)
      with acc n \<open>0 < n\<close> have "acc' = \<lparr>acc_X = Arr a, acc_labels = lbs,
            acc_metadata = acc_metadata acc @ [stamp s e r met],
            acc_processed_runs = (if return_runs then acc_processed_runs acc @ [praw]
                                  else acc_processed_runs acc)\<rparr>"
        by (auto simp: accumulate_def)
      with x \<open>length lbs \<noteq> 0\<close> True show ?thesis
        by (simp add: arrays_aligned_def stamp_length)
    next
      case False
      with inv obtain b m rest' where b: "acc_X acc = Arr b" "shape b = m # rest'"
        "m = length (acc_labels acc)" "P rest'"
        "length (concat (acc_metadata acc)) = length (acc_labels acc)" "0 < m"
        by (auto simp: arrays_aligned_def split: xval.splits list.splits)
      with acc n \<open>0 < n\<close> x obtain c where
        c: "np_append_axis0 b a = Inr c"
        and acc': "acc' = \<lparr>acc_X = Arr c, acc_labels = acc_labels acc @ lbs,
            acc_metadata = acc_metadata acc @ [stamp s e r met],
            acc_processed_runs = (if return_runs then acc_processed_runs acc @ [praw]
                                  else acc_processed_runs acc)\<rparr>"
        by (auto simp: accumulate_def nd_len_def and_then_Inr_iff)
      from c b x have "shape c = (m + length lbs) # rest'"
        by (auto simp: np_append_axis0_def split: if_splits)
      with acc' b x show ?thesis
        by (simp add: arrays_aligned_def stamp_length)
    qed
  qed
qed

lemma get_data_loop_aligned:
  assumes "get_data_loop proc_raw ds False return_runs todo out acc = (out', Inr acc')"
    and "\<And>rw x lbs met praw. proc_raw rw ds False return_runs = Inr (Some (x, lbs, met, praw)) \<Longrightarrow>
           \<exists>a rest. x = Arr a \<and> shape a = length lbs # rest \<and> P rest \<and> length met = length lbs"
    and "arrays_aligned P acc"
  shows "arrays_aligned P acc'"
  using assms(1,3)
proof (induction todo arbitrary: out acc)
  case Nil
  then show ?case by simp
next
  case (Cons t todo)
  obtain s e r rw where t: "t = (s, e, r, rw)" by (cases t) auto
  show ?case
  proof (cases "proc_raw rw ds False return_runs")
    case (Inl err)
    with Cons.prems(1) t show ?thesis by (simp add: Let_def)
  next
    case (Inr res)
    show ?thesis
    proof (cases res)
      case None
      with Inr Cons.prems t show ?thesis
        by (auto simp: Let_def intro: Cons.IH)
    next
      case (Some proc)
      obtain x lbs met praw where proc: "proc = (x, lbs, met, praw)" by (cases proc) auto
      with Some Inr assms(2) obtain a rest where
        x: "x = Arr a" "shape a = length lbs # rest" "P rest" "length met = length lbs"
        by blast
      obtain msgs r' where a: "accumulate False return_runs s e r proc acc = (msgs, r')"
        by (cases "accumulate False return_runs s e r proc acc") auto
      show ?thesis
      proof (cases r')
        case (Inl err)
        with a Some Inr Cons.prems(1) t show ?thesis by (simp add: Let_def)
      next
        case (Inr acc'')
        with a Some \<open>proc_raw rw ds False return_runs = Inr res\<close> Cons.prems(1) t
        have loop: "get_data_loop proc_raw ds False return_runs todo
              ((out @ [ProcessRawCalled s e r]) @ msgs) acc'' = (out', Inr acc')"
          by (simp add: Let_def)
        from a Inr proc x have "arrays_aligned P acc''"
          using accumulate_aligned [OF _ x(2,3,4) Cons.prems(2)] by simp
        with loop show ?thesis by (rule Cons.IH)
      qed
    qed
  qed
qed

lemma get_data_aligned:
  assumes ret: "get_data lib valid proc_raw ds subjects False return_runs cache disk =
                  (disk', out, Inr (X, labels, metadata, processed_runs))"
    and miss: "cache \<longrightarrow> (\<exists>e. read_cache disk (cache_path ds subjects) = Inl e)"
    and pr: "\<And>rw x lbs met praw. proc_raw rw ds False return_runs = Inr (Some (x, lbs, met, praw)) \<Longrightarrow>
           \<exists>a rest. x = Arr a \<and> shape a = length lbs # rest \<and> P rest \<and> length met = length lbs"
  shows "\<exists>a rest. X = Arr a \<and> shape a = length labels # rest \<and> P rest \<and>
                  length metadata = length labels"
proof -
  from get_data_miss [OF miss ret] obtain out0 where
    "get_data_fresh lib valid proc_raw ds subjects False return_runs cache disk =
       (disk', out0, Inr (X, labels, metadata, processed_runs))"
    by blast
  from get_data_fresh_returns [OF this] obtain data out' acc runs where
    loop: "get_data_loop proc_raw ds False return_runs (traversal data)
             [IsValidCalled, DatasetGetDataCalled, PrepareProcessCalled]
             \<lparr>acc_X = Lst [], acc_labels = [], acc_metadata = [], acc_processed_runs = []\<rparr>
             = (out', Inr acc)"
    and comb: "combine lib False acc = Inr (X, labels, metadata, runs)"
    by blast
  have "arrays_aligned P acc"
    by (rule get_data_loop_aligned [OF loop pr]) (simp_all add: arrays_aligned_def)
  moreover from comb have "acc_metadata acc \<noteq> []" "metadata = concat (acc_metadata acc)"
    "labels = acc_labels acc" "X = acc_X acc"
    by (auto simp: combine_def Let_def split: if_splits)
  ultimately show ?thesis
    by (auto simp: arrays_aligned_def split: xval.splits list.splits)
qed

lemma process_raw_arrays:
  assumes "snd (process_raw lib self rw ds False return_runs) = Inr (Some (X, labels, met, aux))"
  shows "\<exists>a rest. X = Arr a \<and> shape a = length labels # rest \<and>
           (\<exists>c s. rest = (if length (filters self) = 1 then [c, s]
                          else [c, s, length (filters self)])) \<and>
           length met = length labels"
proof -
  from process_raw_Some [OF assms] obtain rw' eid evs picks where
    "p300_process_events lib self rw' ds False return_runs eid evs picks = Inr (X, labels, met, aux)"
    by blast
  from p300_process_events_arrays [OF this] show ?thesis by (auto split: if_splits)
qed


section \<open>The claims\<close>

subsection \<open>C1: the extraction window under a baseline\<close>

text \<open>
  What each \<^verbatim>\<open>process_raw\<close> passes to \<^verbatim>\<open>mne.Epochs\<close> as the window. The base
  method passes \<^verbatim>\<open>bmin\<close> and \<^verbatim>\<open>bmax\<close>, the widened window; the P300 override
  computes them too, but passes \<^verbatim>\<open>tmin\<close> and \<^verbatim>\<open>tmax\<close>.
\<close>

lemma base_window_is_widened:
  assumes "baseline self = Some (b0, b1)"
  shows "kw_tmin (base_epoching_kwargs self ds eid picks tmin' tmax') = min tmin' (b0 + fst (interval ds)) \<and>
         kw_tmax (base_epoching_kwargs self ds eid picks tmin' tmax') = max tmax' (b1 + fst (interval ds))"
  using assms
  by (auto simp: base_epoching_kwargs_def shifted_baseline_def bmin_of_def bmax_of_def Let_def)

lemma p300_window_is_not_widened:
  "kw_tmin (p300_epoching_kwargs self ds eid picks tmin' tmax') = tmin' \<and>
   kw_tmax (p300_epoching_kwargs self ds eid picks tmin' tmax') = tmax' \<and>
   kw_baseline (p300_epoching_kwargs self ds eid picks tmin' tmax') = shifted_baseline self ds"
  by (simp add: p300_epoching_kwargs_def)

lemma p300_bands_kwargs:
  assumes "p300_bands lib self rw ds evs eid picks tmin' tmax' return_epochs return_runs bands st = Inr st'"
    and "bands \<noteq> []"
  shows "bs_kwargs st' = Some (p300_epoching_kwargs self ds eid picks tmin' tmax')"
  using assms
proof (induction bands arbitrary: st)
  case Nil
  then show ?case by simp
next
  case (Cons bandpass bands)
  from Cons.prems(1) obtain raw_f ep epoching where
    step: "p300_band lib self rw ds evs eid picks tmin' tmax' bandpass = Inr (raw_f, ep, epoching)"
    and rest: "p300_bands lib self rw ds evs eid picks tmin' tmax' return_epochs return_runs bands
         \<lparr>bs_X = bs_X st @ [if return_epochs then Epo ep
                             else Arr (nd_scale (unit_factor ds) (ep_get_data ep))],
          bs_runs = bs_runs st @ [if return_runs then Some raw_f else None],
          bs_epochs = Some ep,
          bs_kwargs = Some epoching\<rparr> = Inr st'"
    by (auto simp: and_then_Inr_iff)
  from step have e: "epoching = p300_epoching_kwargs self ds eid picks tmin' tmax'"
    by (auto simp: p300_band_def Let_def and_then_Inr_iff)
  show ?case
  proof (cases bands)
    case Nil
    with rest e show ?thesis by auto
  next
    case (Cons b bs)
    with Cons.IH [OF rest] show ?thesis by simp
  qed
qed

text \<open>
  Whatever the recording and the library, the window a returning
  \<^verbatim>\<open>BaseP300.process_raw\<close> has passed is the plain \<^verbatim>\<open>tmin\<close> to \<^verbatim>\<open>tmax\<close>.
\<close>

lemma process_raw_window:
  assumes "snd (process_raw lib self rw ds return_epochs return_runs) =
             Inr (Some (X, labels, met, runs, evs, kw))"
  shows "kw_tmin kw = tmin self + fst (interval ds) \<and>
         kw_tmax kw = (case tmax self of None \<Rightarrow> snd (interval ds) | Some t \<Rightarrow> t + fst (interval ds))"
proof -
  from process_raw_Some [OF assms] obtain rw' eid evs0 picks where
    ev: "p300_process_events lib self rw' ds return_epochs return_runs eid evs0 picks =
           Inr (X, labels, met, runs, evs, kw)"
    by blast
  then obtain st where
    bands: "p300_bands lib self rw' ds evs0 eid picks (tmin self + fst (interval ds))
              (case tmax self of None \<Rightarrow> snd (interval ds) | Some t \<Rightarrow> t + fst (interval ds))
              return_epochs return_runs (filters self)
              \<lparr>bs_X = [], bs_runs = [], bs_epochs = None, bs_kwargs = None\<rparr> = Inr st"
    and kw: "bs_kwargs st = Some kw"
    by (auto simp: p300_process_events_def Let_def and_then_Inr_iff split: if_splits option.splits)
  have "filters self \<noteq> []"
  proof
    assume "filters self = []"
    with bands kw show False by auto
  qed
  from p300_bands_kwargs [OF bands this] kw show ?thesis
    by (simp add: p300_epoching_kwargs_def)
qed

text \<open>
  Claim C1 says that, with a baseline window configured, \<^verbatim>\<open>process_raw\<close> extracts
  the epochs over min(tmin, bmin) to max(tmax, bmax) and crops them back to tmin to
  tmax after the correction. \<^verbatim>\<open>BaseP300.process_raw\<close> does not: for the paradigm
  \<^verbatim>\<open>P300(tmin=0.0, tmax=1.0, baseline=(-0.2, 0.0))\<close> on a dataset whose task
  interval is (0, 1), the window it passes to \<^verbatim>\<open>mne.Epochs\<close> is 0 to 1 with the
  baseline -0.2 to 0 outside of it, while the base method on the same configuration
  passes -0.2 to 1.
\<close>

theorem C1_p300_window_not_widened:
  "(case snd (process_raw sim_mne (p300_default\<lparr>baseline := Some (-0.2, 0), tmax := Some 1\<rparr>)
               rec_two_events (sample_dataset []) False False) of
      Inr (Some (X, labels, met, runs, evs, kw)) \<Rightarrow>
        kw_tmin kw = 0 \<and> kw_tmax kw = 1 \<and> kw_baseline kw = Some (-0.2, 0)
    | Inr None \<Rightarrow> False
    | Inl e \<Rightarrow> False) \<and>
   kw_tmin (base_epoching_kwargs (p300_default\<lparr>baseline := Some (-0.2, 0), tmax := Some 1\<rparr>)
              (sample_dataset []) [] [] 0 1) = -0.2 \<and>
   kw_tmax (base_epoching_kwargs (p300_default\<lparr>baseline := Some (-0.2, 0), tmax := Some 1\<rparr>)
              (sample_dataset []) [] [] 0 1) = 1"
  by code_simp

subsection \<open>C2: a run whose windows were all rejected\<close>

text \<open>
  With \<^verbatim>\<open>return_epochs\<close> the test \<^verbatim>\<open>len(x[0]) > 0\<close> of \<^verbatim>\<open>get_data\<close> reads
  the number of windows of the first band, and a run without windows is reported and
  skipped.
\<close>

lemma accumulate_no_windows_epochs:
  assumes "ep_windows ep = []"
  shows "accumulate return_epochs return_runs s e r (Lst (Epo ep # others), lbs, met, praw) acc =
           ([Printed (''All epochs were removed in run '' @ r @ ''. Are you sure this is right?'')],
            Inr acc)"
  using assms by (simp add: accumulate_def ep_len_def)

text \<open>
  Without it \<^verbatim>\<open>x\<close> is an array, \<^verbatim>\<open>x[0]\<close> is its first window, and an array
  without windows has none: the test raises IndexError before anything is printed.
\<close>

lemma accumulate_no_windows_array:
  assumes "shape a = 0 # rest"
  shows "accumulate return_epochs return_runs s e r (Arr a, lbs, met, praw) acc =
           ([], Inl (IndexError ''index 0 is out of bounds for axis 0 with size 0''))"
  using assms by (simp add: accumulate_def nd_getitem0_def)


subsection \<open>C3: labels, windows and metadata rows\<close>

text \<open>
  Claim C3 says that for every call of \<^verbatim>\<open>process_raw\<close> and of \<^verbatim>\<open>get_data\<close> that
  returns, the label vector, the window axis of the feature output and the metadata
  table have one length. The labels are read from the \<^verbatim>\<open>epochs\<close> of the last band
  of the filter bank, while with \<^verbatim>\<open>return_epochs\<close> the feature output keeps the
  epochs of every band and \<^verbatim>\<open>get_data\<close> keeps those of the first. With an
  amplitude threshold the bands need not reject the same windows: for the bands 1 to
  24 Hz and 10 to 22 Hz, \<^verbatim>\<open>reject_uv=40\<close> and \<^verbatim>\<open>return_epochs=True\<close>, the first
  band of the sample recording keeps one window and the last keeps two, so
  \<^verbatim>\<open>process_raw\<close> returns two labels and two metadata rows beside a first band of
  one window, and \<^verbatim>\<open>get_data\<close> returns two labels and two rows for one window.
\<close>

theorem C3_lengths_differ_across_bands:
  "(case snd (process_raw sim_mne
               (p300_default\<lparr>reject_uv := Some 40, filters := [(1, 24), (10, 22)]\<rparr>)
               rec_two_events (sample_dataset []) True False) of
      Inr (Some (Lst [Epo first_band, Epo last_band], labels, met, aux)) \<Rightarrow>
        ep_len first_band = 1 \<and> ep_len last_band = 2 \<and> length labels = 2 \<and> length met = 2
    | Inr other \<Rightarrow> False
    | Inl e \<Rightarrow> False) \<and>
   (case snd (snd (p300_get_data sim_mne
                     (p300_default\<lparr>reject_uv := Some 40, filters := [(1, 24), (10, 22)]\<rparr>)
                     (sample_dataset [(1, [(''session_0'', [(''run_0'', rec_two_events)])])])
                     None True False False empty_disk)) of
      Inr (Epo e, labels, metadata, processed_runs) \<Rightarrow>
        ep_len e = 1 \<and> length labels = 2 \<and> length metadata = 2
    | Inr other \<Rightarrow> False
    | Inl e \<Rightarrow> False)"
  by code_simp

subsection \<open>C4: the rank of the feature array\<close>




subsection \<open>C5: recordings without usable events\<close>

text \<open>
  When \<^verbatim>\<open>pick_events\<close> finds no event of the vocabulary it raises RuntimeError,
  which \<^verbatim>\<open>BaseP300.process_raw\<close> turns into the sentinel.
\<close>

lemma select_events_none_left:
  assumes "dict_get eid ''Target'' id = Inr (Single c)"
    and "mne_pick_events lib evs (map snd eid) = Inl (RuntimeError msg)"
  shows "select_events lib eid evs = Inr None"
  using assms by (simp add: select_events_def select_events_body_def)

text \<open>
  \<^verbatim>\<open>get_data\<close> goes on to the next run when \<^verbatim>\<open>process_raw\<close> returns the
  sentinel.
\<close>

lemma get_data_loop_skips:
  assumes "proc_raw rw ds return_epochs return_runs = Inr None"
  shows "get_data_loop proc_raw ds return_epochs return_runs ((s, e, r, rw) # todo) out acc =
           get_data_loop proc_raw ds return_epochs return_runs todo
             (out @ [ProcessRawCalled s e r]) acc"
  using assms by (simp add: Let_def)

text \<open>
  The base method also handles a ValueError of \<^verbatim>\<open>events_from_annotations\<close>.
\<close>

lemma base_find_events_undecodable:
  assumes "mne_get_stim_channel lib rw = []"
    and "mne_events_from_annotations lib rw (Some eid) = Inl (ValueError msg)"
  shows "base_find_events lib rw eid = Inr None"
  using assms by (simp add: base_find_events_def)

text \<open>
  The P300 override does not: its call of \<^verbatim>\<open>events_from_annotations\<close> is outside
  any \<^verbatim>\<open>try\<close>, so the exception leaves \<^verbatim>\<open>process_raw\<close>.
\<close>

lemma p300_undecodable_raises:
  assumes "\<not> truthy (reject_from_eog self)"
    and "mne_get_stim_channel lib rw = []"
    and "mne_events_from_annotations lib rw None = Inl (ValueError msg)"
  shows "snd (process_raw lib self rw ds return_epochs return_runs) = Inl (ValueError msg)"
  using assms
  by (simp add: process_raw_def annotate_blinks_def p300_process_annotated_def find_all_events_def)

text \<open>
  Claim C5 says that \<^verbatim>\<open>process_raw\<close> returns the skip sentinel, and \<^verbatim>\<open>get_data\<close>
  continues with the next run, for a recording in which no event matches the
  vocabulary and for one whose event stream cannot be decoded from the annotations.
  The first half holds. For the second, take a recording without a stimulus channel
  whose only annotation is marked bad, so that \<^verbatim>\<open>events_from_annotations\<close> raises
  ValueError: \<^verbatim>\<open>BaseParadigm.process_raw\<close> returns the sentinel, but
  \<^verbatim>\<open>BaseP300.process_raw\<close> raises the ValueError, and \<^verbatim>\<open>get_data\<close> ends with it
  although the second run of the subject has two windows.
\<close>

theorem C5_undecodable_events_raise:
  "snd (process_raw sim_mne p300_default rec_only_bad (two_runs rec_only_bad rec_two_events)
          False False) =
     Inl (ValueError ''Could not find any of the events you specified.'') \<and>
   base_process_raw sim_mne p300_default rec_only_bad (two_runs rec_only_bad rec_two_events)
     False False = Inr None \<and>
   snd (p300_get_data sim_mne p300_default (two_runs rec_only_bad rec_two_events)
          None False False False empty_disk) =
     ([IsValidCalled, DatasetGetDataCalled, PrepareProcessCalled,
       ProcessRawCalled 1 ''session_0'' ''run_0''],
      Inl (ValueError ''Could not find any of the events you specified.'')) \<and>
   snd (process_raw sim_mne p300_default rec_silent (two_runs rec_silent rec_two_events)
          False False) = Inr None \<and>
   (case snd (snd (p300_get_data sim_mne p300_default (two_runs rec_silent rec_two_events)
                     None False False False empty_disk)) of
      Inr (X, labels, metadata, processed_runs) \<Rightarrow>
        labels = [''Target'', ''NonTarget''] \<and> map run metadata = [Some ''run_1'', Some ''run_1'']
    | Inl e \<Rightarrow> False)"
  by code_simp

subsection \<open>C6: checks on the configuration\<close>

text \<open>
  Claim C6: \<^verbatim>\<open>BaseP300.__init__\<close>, which takes no recording and no dataset,
  stores the configuration when \<^verbatim>\<open>tmin < tmax\<close> (if \<^verbatim>\<open>tmax\<close> is given),
  \<^verbatim>\<open>tmin < reject_tmin\<close> and \<^verbatim>\<open>tmin < reject_tmax\<close> (for each that is given)
  and \<^verbatim>\<open>reject_tmin < reject_tmax\<close> (if both are given), and raises ValueError
  when one of these fails. A \<^verbatim>\<open>reject_tmax\<close> above the upper bound of the
  dataset's task interval is refused when a recording is processed: the step of
  \<^verbatim>\<open>process_raw\<close> that follows the selection of the events raises ValueError, and
  \<^verbatim>\<open>process_raw\<close> returns no windows for any recording.
\<close>

theorem C6_configuration_checks:
  "((\<forall>t. tmax' = Some t \<longrightarrow> tmin' < t) \<and>
    (\<forall>a. reject_tmin' = Some a \<longrightarrow> tmin' < a) \<and>
    (\<forall>b. reject_tmax' = Some b \<longrightarrow> tmin' < b) \<and>
    (\<forall>a b. reject_tmin' = Some a \<and> reject_tmax' = Some b \<longrightarrow> a < b)
    \<longrightarrow> BaseP300_init fs evs tmin' tmax' reject_tmin' reject_tmax' bl chs rs uv eog =
          Inr \<lparr>filters = fs, events = evs, channels = chs, baseline = bl, resample = rs,
               reject_uv = uv, reject_from_eog = eog, tmin = tmin', tmax = tmax',
               reject_tmin = reject_tmin', reject_tmax = reject_tmax'\<rparr>) \<and>
   (\<not> ((\<forall>t. tmax' = Some t \<longrightarrow> tmin' < t) \<and>
        (\<forall>a. reject_tmin' = Some a \<longrightarrow> tmin' < a) \<and>
        (\<forall>b. reject_tmax' = Some b \<longrightarrow> tmin' < b) \<and>
        (\<forall>a b. reject_tmin' = Some a \<and> reject_tmax' = Some b \<longrightarrow> a < b))
    \<longrightarrow> (\<exists>msg. BaseP300_init fs evs tmin' tmax' reject_tmin' reject_tmax' bl chs rs uv eog =
                Inl (ValueError msg))) \<and>
   (\<forall>r. reject_tmax self = Some r \<and> snd (interval ds) < r \<longrightarrow>
      p300_process_events lib self rw ds return_epochs return_runs eid evs' picks =
        Inl (ValueError ''reject_tmax needs to be shorter than tmax'') \<and>
      (\<forall>res. snd (process_raw lib self rw ds return_epochs return_runs) \<noteq> Inr (Some res)))"
proof (intro conjI impI allI)
  assume "(\<forall>t. tmax' = Some t \<longrightarrow> tmin' < t) \<and>
    (\<forall>a. reject_tmin' = Some a \<longrightarrow> tmin' < a) \<and>
    (\<forall>b. reject_tmax' = Some b \<longrightarrow> tmin' < b) \<and>
    (\<forall>a b. reject_tmin' = Some a \<and> reject_tmax' = Some b \<longrightarrow> a < b)"
  then show "BaseP300_init fs evs tmin' tmax' reject_tmin' reject_tmax' bl chs rs uv eog =
          Inr \<lparr>filters = fs, events = evs, channels = chs, baseline = bl, resample = rs,
               reject_uv = uv, reject_from_eog = eog, tmin = tmin', tmax = tmax',
               reject_tmin = reject_tmin', reject_tmax = reject_tmax'\<rparr>"
    by (auto simp: BaseP300_init_def split: option.splits)
next
  assume "\<not> ((\<forall>t. tmax' = Some t \<longrightarrow> tmin' < t) \<and>
        (\<forall>a. reject_tmin' = Some a \<longrightarrow> tmin' < a) \<and>
        (\<forall>b. reject_tmax' = Some b \<longrightarrow> tmin' < b) \<and>
        (\<forall>a b. reject_tmin' = Some a \<and> reject_tmax' = Some b \<longrightarrow> a < b))"
  then show "\<exists>msg. BaseP300_init fs evs tmin' tmax' reject_tmin' reject_tmax' bl chs rs uv eog =
                Inl (ValueError msg)"
    by (auto simp: BaseP300_init_def split: option.splits)
next
  fix r assume h: "reject_tmax self = Some r \<and> snd (interval ds) < r"
  then show "p300_process_events lib self rw ds return_epochs return_runs eid evs' picks =
        Inl (ValueError ''reject_tmax needs to be shorter than tmax'')"
    by (simp add: reject_tmax_check)
next
  fix r res assume h: "reject_tmax self = Some r \<and> snd (interval ds) < r"
  show "snd (process_raw lib self rw ds return_epochs return_runs) \<noteq> Inr (Some res)"
  proof
    assume "snd (process_raw lib self rw ds return_epochs return_runs) = Inr (Some res)"
    then obtain rw' eid evs picks where
      "p300_process_events lib self rw' ds return_epochs return_runs eid evs picks = Inr res"
      using process_raw_Some by blast
    with h show False by (simp add: reject_tmax_check)
  qed
qed

theorem C6_configuration_checks_witness:
  "BaseP300_init [(1, 24)] None 0 (Some 1) (Some 0.1) (Some 0.5) None None None None EogOff =
     Inr \<lparr>filters = [(1, 24)], events = None, channels = None, baseline = None, resample = None,
          reject_uv = None, reject_from_eog = EogOff, tmin = 0, tmax = Some 1,
          reject_tmin = Some 0.1, reject_tmax = Some 0.5\<rparr> \<and>
   (\<exists>msg. BaseP300_init [(1, 24)] None 0.2 (Some 0.6) (Some 0.1) None None None None None EogOff =
            Inl (ValueError msg)) \<and>
   reject_tmax (p300_default\<lparr>reject_tmax := Some 2\<rparr>) = Some 2 \<and>
   snd (interval (sample_dataset [])) < 2 \<and>
   p300_process_events sim_mne (p300_default\<lparr>reject_tmax := Some 2\<rparr>) rec_two_events
     (sample_dataset []) False False [] [] [] =
     Inl (ValueError ''reject_tmax needs to be shorter than tmax'')"
proof -
  have h: "reject_tmax (p300_default\<lparr>reject_tmax := Some 2\<rparr>) = Some 2 \<and>
           snd (interval (sample_dataset [])) < 2"
    by (simp add: p300_default_def sample_dataset_def)
  from C6_configuration_checks
         [where tmin' = "0" and tmax' = "Some 1" and reject_tmin' = "Some 0.1"
            and reject_tmax' = "Some 0.5" and fs = "[(1, 24)]" and evs = None and bl = None
            and chs = None and rs = None and uv = None and eog = EogOff]
  have good: "BaseP300_init [(1, 24)] None 0 (Some 1) (Some 0.1) (Some 0.5) None None None None EogOff =
     Inr \<lparr>filters = [(1, 24)], events = None, channels = None, baseline = None, resample = None,
          reject_uv = None, reject_from_eog = EogOff, tmin = 0, tmax = Some 1,
          reject_tmin = Some 0.1, reject_tmax = Some 0.5\<rparr>"
    by simp
  have "\<not> (\<forall>a. Some (0.1::real) = Some a \<longrightarrow> (0.2::real) < a)"
  proof
    assume "\<forall>a. Some (0.1::real) = Some a \<longrightarrow> (0.2::real) < a"
    then have "(0.2::real) < 0.1" by blast
    then show False by simp
  qed
  then have "\<not> ((\<forall>t. Some (0.6::real) = Some t \<longrightarrow> (0.2::real) < t) \<and>
            (\<forall>a. Some (0.1::real) = Some a \<longrightarrow> (0.2::real) < a) \<and>
            (\<forall>b. (None::real option) = Some b \<longrightarrow> (0.2::real) < b) \<and>
            (\<forall>a b. Some (0.1::real) = Some a \<and> (None::real option) = Some b \<longrightarrow> a < b))"
    by blast
  with C6_configuration_checks
         [where tmin' = "0.2" and tmax' = "Some 0.6" and reject_tmin' = "Some 0.1"
            and reject_tmax' = None and fs = "[(1, 24)]" and evs = None and bl = None
            and chs = None and rs = None and uv = None and eog = EogOff]
  have bad: "\<exists>msg. BaseP300_init [(1, 24)] None 0.2 (Some 0.6) (Some 0.1) None None None None None EogOff =
            Inl (ValueError msg)"
    by blast
  from C6_configuration_checks
         [where self = "p300_default\<lparr>reject_tmax := Some 2\<rparr>" and ds = "sample_dataset []"
            and lib = sim_mne and rw = rec_two_events and return_epochs = False
            and return_runs = False and eid = "[]" and evs' = "[]" and picks = "[]"] h
  have late: "p300_process_events sim_mne (p300_default\<lparr>reject_tmax := Some 2\<rparr>) rec_two_events
     (sample_dataset []) False False [] [] [] =
     Inl (ValueError ''reject_tmax needs to be shorter than tmax'')"
    by blast
  from good bad h late show ?thesis by blast
qed

subsection \<open>C7: incompatible datasets\<close>

text \<open>
  Claim C7: when the paradigm tag of the dataset is not \<^verbatim>\<open>p300\<close>, or a label of
  the event whitelist is not a key of the dataset's \<^verbatim>\<open>event_id\<close>, \<^verbatim>\<open>is_valid\<close>
  is false, and \<^verbatim>\<open>get_data\<close>, unless it returns cached data, raises an
  AssertionError whose message carries the dataset's code, without having called
  \<^verbatim>\<open>dataset.get_data\<close>, \<^verbatim>\<open>prepare_process\<close> or \<^verbatim>\<open>process_raw\<close> and leaving
  the cache as it was.
\<close>

theorem C7_invalid_dataset:
  assumes "paradigm ds \<noteq> ''p300'' \<or>
           (\<exists>evs label. events self = Some evs \<and> label \<in> set evs \<and> label \<notin> fst ` set (event_id ds))"
    and "cache \<longrightarrow> (\<exists>e. read_cache disk (cache_path ds subjects) = Inl e)"
  shows "\<not> is_valid self ds \<and>
         (\<exists>out. p300_get_data lib self ds subjects return_epochs return_runs cache disk =
                  (disk, out,
                   Inl (AssertionError (''Dataset '' @ code ds @ '' is not valid for paradigm''))) \<and>
                DatasetGetDataCalled \<notin> set out \<and>
                PrepareProcessCalled \<notin> set out \<and>
                (\<forall>s e r. ProcessRawCalled s e r \<notin> set out))"
proof -
  have inv: "\<not> is_valid self ds"
    using assms(1) by (auto simp: is_valid_iff split: option.splits)
  show ?thesis
  proof (cases cache)
    case False
    with inv show ?thesis
      by (simp add: p300_get_data_def get_data_def get_data_fresh_invalid)
  next
    case True
    with assms(2) obtain e where "read_cache disk (cache_path ds subjects) = Inl e" by blast
    with True inv show ?thesis
      by (simp add: p300_get_data_def get_data_def get_data_fresh_invalid)
  qed
qed

theorem C7_invalid_dataset_witness:
  "paradigm ((sample_dataset [])\<lparr>paradigm := ''imagery''\<rparr>) \<noteq> ''p300'' \<and>
   \<not> is_valid p300_default ((sample_dataset [])\<lparr>paradigm := ''imagery''\<rparr>) \<and>
   snd (snd (p300_get_data sim_mne p300_default ((sample_dataset [])\<lparr>paradigm := ''imagery''\<rparr>)
               None False False False empty_disk)) =
     Inl (AssertionError ''Dataset Sample-P300 is not valid for paradigm'')"
proof -
  have h: "paradigm ((sample_dataset [])\<lparr>paradigm := ''imagery''\<rparr>) \<noteq> ''p300''"
    by simp
  from C7_invalid_dataset
         [of "(sample_dataset [])\<lparr>paradigm := ''imagery''\<rparr>" p300_default False empty_disk None
            sim_mne False False] h
  show ?thesis by (auto simp: sample_dataset_def)
qed

subsection \<open>C8: what process_raw does to the recording\<close>




subsection \<open>C9: the order of the metadata rows\<close>

text \<open>
  The loop of \<^verbatim>\<open>get_data\<close> only ever appends the rows of the run at hand, stamped
  with its subject, so the rows stay sorted under any ranking of the subjects under
  which the runs still to come are sorted behind the rows collected so far.
\<close>

lemma row_rank_stamp: "map (row_rank rk) (stamp s e r met) = replicate (length met) (rk s)"
  by (induction met) (auto simp: stamp_def row_rank_def)

lemma accumulate_metadata:
  assumes "accumulate return_epochs return_runs s e r proc acc = (msgs, Inr acc')"
  shows "acc_metadata acc' = acc_metadata acc \<or>
         (\<exists>met. acc_metadata acc' = acc_metadata acc @ [stamp s e r met])"
  using assms
  by (auto simp: accumulate_def Let_def and_then_Inr_iff split: prod.splits sum.splits if_splits)

lemma sorted_replicate_between:
  "sorted (xs @ x # ys) \<Longrightarrow> sorted (xs @ replicate k x @ ys)"
  by (auto simp: sorted_append)

lemma sorted_drop_between:
  "sorted (xs @ x # ys) \<Longrightarrow> sorted (xs @ ys)"
  by (auto simp: sorted_append)

lemma get_data_loop_sorted:
  assumes "get_data_loop proc_raw ds return_epochs return_runs todo out acc = (out', Inr acc')"
    and "sorted (map (row_rank rk) (concat (acc_metadata acc)) @ map (\<lambda>t. rk (fst t)) todo)"
  shows "sorted (map (row_rank rk) (concat (acc_metadata acc')))"
  using assms
proof (induction todo arbitrary: out acc)
  case Nil
  then show ?case by simp
next
  case (Cons t todo)
  obtain s e r rw where t: "t = (s, e, r, rw)" by (cases t) auto
  from Cons.prems(2) t
  have srt: "sorted (map (row_rank rk) (concat (acc_metadata acc)) @ rk s # map (\<lambda>t. rk (fst t)) todo)"
    by simp
  show ?case
  proof (cases "proc_raw rw ds return_epochs return_runs")
    case (Inl err)
    with Cons.prems(1) t show ?thesis by (simp add: Let_def)
  next
    case (Inr res)
    show ?thesis
    proof (cases res)
      case None
      with Inr Cons.prems(1) t
      have "get_data_loop proc_raw ds return_epochs return_runs todo
              (out @ [ProcessRawCalled s e r]) acc = (out', Inr acc')"
        by (simp add: Let_def)
      moreover from srt
      have "sorted (map (row_rank rk) (concat (acc_metadata acc)) @ map (\<lambda>t. rk (fst t)) todo)"
        by (rule sorted_drop_between)
      ultimately show ?thesis by (rule Cons.IH)
    next
      case (Some proc)
      obtain msgs r' where a: "accumulate return_epochs return_runs s e r proc acc = (msgs, r')"
        by (cases "accumulate return_epochs return_runs s e r proc acc") auto
      show ?thesis
      proof (cases r')
        case (Inl err)
        with a Some Inr Cons.prems(1) t show ?thesis by (simp add: Let_def)
      next
        case (Inr acc'')
        with a Some \<open>proc_raw rw ds return_epochs return_runs = Inr res\<close> Cons.prems(1) t
        have loop: "get_data_loop proc_raw ds return_epochs return_runs todo
              ((out @ [ProcessRawCalled s e r]) @ msgs) acc'' = (out', Inr acc')"
          by (simp add: Let_def)
        from a Inr accumulate_metadata
        have "acc_metadata acc'' = acc_metadata acc \<or>
              (\<exists>met. acc_metadata acc'' = acc_metadata acc @ [stamp s e r met])"
          by blast
        then have "sorted (map (row_rank rk) (concat (acc_metadata acc'')) @ map (\<lambda>t. rk (fst t)) todo)"
        proof
          assume "acc_metadata acc'' = acc_metadata acc"
          with srt show ?thesis by (simp add: sorted_drop_between)
        next
          assume "\<exists>met. acc_metadata acc'' = acc_metadata acc @ [stamp s e r met]"
          then obtain met where "acc_metadata acc'' = acc_metadata acc @ [stamp s e r met]" ..
          with sorted_replicate_between [OF srt, of "length met"]
          show ?thesis by (simp add: row_rank_stamp)
        qed
        with loop show ?thesis by (rule Cons.IH)
      qed
    qed
  qed
qed

lemma traversal_append: "traversal (d1 @ d2) = traversal d1 @ traversal d2"
  by (simp add: traversal_def)

lemma traversal_subjects: "t \<in> set (traversal data) \<Longrightarrow> fst t \<in> fst ` set data"
  by (force simp: traversal_def)

lemma sorted_two_blocks:
  fixes f :: "'a \<Rightarrow> nat"
  assumes "\<forall>x \<in> set xs. f x = 0" and "\<forall>y \<in> set ys. f y = 1"
  shows "sorted (map f (xs @ ys))"
proof -
  have a: "sorted (map f xs)" using assms(1) by (induction xs) auto
  have b: "sorted (map f ys)" using assms(2) by (induction ys) auto
  from a b assms show ?thesis by (auto simp: sorted_append)
qed

lemma traversal_sorted:
  assumes "distinct (map fst (d1 @ d2))"
  shows "sorted (map (\<lambda>t. if fst t \<in> fst ` set d1 then 0 else (1::nat)) (traversal (d1 @ d2)))"
proof -
  have 1: "\<forall>t \<in> set (traversal d1). (if fst t \<in> fst ` set d1 then 0 else (1::nat)) = 0"
    by (auto dest: traversal_subjects)
  have "\<forall>t \<in> set (traversal d2). fst t \<notin> fst ` set d1"
    using assms by (auto dest!: traversal_subjects)
  then have 2: "\<forall>t \<in> set (traversal d2). (if fst t \<in> fst ` set d1 then 0 else (1::nat)) = 1"
    by auto
  from 1 2 show ?thesis
    unfolding traversal_append by (rule sorted_two_blocks)
qed

text \<open>
  Claim C9: let \<^verbatim>\<open>get_data\<close> return without a cache hit, and let the dict that
  \<^verbatim>\<open>dataset.get_data\<close> returned (its keys are distinct) consist of an earlier and
  a later part. Then every metadata row stamped with a subject of the earlier part
  stands before every row stamped with a subject of the later part.
\<close>

theorem C9_subject_order:
  assumes ret: "get_data lib valid proc_raw ds subjects return_epochs return_runs cache disk =
                  (disk', out, Inr (X, labels, metadata, processed_runs))"
    and miss: "cache \<longrightarrow> (\<exists>e. read_cache disk (cache_path ds subjects) = Inl e)"
    and data: "dataset_get_data ds subjects = Inr (earlier @ later)"
    and keys: "distinct (map fst (earlier @ later))"
    and s1: "s1 \<in> fst ` set earlier" and s2: "s2 \<in> fst ` set later"
    and i: "i < length metadata" "subject (metadata ! i) = Some s1"
    and j: "j < length metadata" "subject (metadata ! j) = Some s2"
  shows "i < j"
proof -
  define rk where "rk = (\<lambda>s. if s \<in> fst ` set earlier then 0 else (1::nat))"
  from get_data_miss [OF miss ret] obtain out0 where
    "get_data_fresh lib valid proc_raw ds subjects return_epochs return_runs cache disk =
       (disk', out0, Inr (X, labels, metadata, processed_runs))"
    by blast
  from get_data_fresh_returns [OF this] data obtain out' acc where
    loop: "get_data_loop proc_raw ds return_epochs return_runs (traversal (earlier @ later))
             [IsValidCalled, DatasetGetDataCalled, PrepareProcessCalled]
             \<lparr>acc_X = Lst [], acc_labels = [], acc_metadata = [], acc_processed_runs = []\<rparr>
             = (out', Inr acc)"
    and md: "metadata = concat (acc_metadata acc)"
    by (auto dest: combine_metadata)
  have "sorted (map (row_rank rk) (concat (acc_metadata acc)))"
    by (rule get_data_loop_sorted [OF loop]) (use traversal_sorted [OF keys] in \<open>simp add: rk_def\<close>)
  then have srt: "sorted (map (row_rank rk) metadata)" by (simp add: md)
  from s2 keys have "s2 \<notin> fst ` set earlier" by auto
  then have r2: "row_rank rk (metadata ! j) = 1" using j by (simp add: row_rank_def rk_def)
  have r1: "row_rank rk (metadata ! i) = 0" using i s1 by (simp add: row_rank_def rk_def)
  show ?thesis
  proof (rule ccontr)
    assume "\<not> i < j"
    then have "j \<le> i" by simp
    with srt i(1) have "map (row_rank rk) metadata ! j \<le> map (row_rank rk) metadata ! i"
      by (intro sorted_nth_mono) auto
    with i(1) j(1) r1 r2 show False by simp
  qed
qed

theorem C9_subject_order_witness:
  "\<exists>disk' out X labels metadata processed_runs.
     p300_get_data sim_mne p300_default two_subjects None False False False empty_disk =
       (disk', out, Inr (X, labels, metadata, processed_runs)) \<and>
     dataset_get_data two_subjects None =
       Inr ([(1, [(''session_0'', [(''run_0'', rec_two_events)])])] @
            [(2, [(''session_0'', [(''run_0'', rec_two_events)])])]) \<and>
     length metadata = 4 \<and>
     subject (metadata ! 1) = Some 1 \<and> subject (metadata ! 2) = Some 2 \<and> (1::nat) < 2"
proof -
  have "case p300_get_data sim_mne p300_default two_subjects None False False False empty_disk of
          (disk', out, Inr (X, labels, metadata, processed_runs)) \<Rightarrow>
            length metadata = 4 \<and> subject (metadata ! 1) = Some 1 \<and> subject (metadata ! 2) = Some 2
        | (disk', out, Inl e) \<Rightarrow> False"
    by code_simp
  then obtain disk' out X labels metadata processed_runs where
    ret: "p300_get_data sim_mne p300_default two_subjects None False False False empty_disk =
            (disk', out, Inr (X, labels, metadata, processed_runs))"
    and rows: "length metadata = 4" "subject (metadata ! 1) = Some 1" "subject (metadata ! 2) = Some 2"
    by (auto split: prod.splits sum.splits)
  have data: "dataset_get_data two_subjects None =
       Inr ([(1, [(''session_0'', [(''run_0'', rec_two_events)])])] @
            [(2, [(''session_0'', [(''run_0'', rec_two_events)])])])"
    by (simp add: two_subjects_def sample_dataset_def)
  have "(1::nat) < 2"
    by (rule C9_subject_order [OF ret [unfolded p300_get_data_def] _ data, of 1 2])
       (use rows in simp_all)
  with ret data rows show ?thesis by blast
qed

subsection \<open>C10: a cache hit\<close>

text \<open>
  Claim C10: when \<^verbatim>\<open>get_data\<close> is called with \<^verbatim>\<open>cache=True\<close> and the cache
  file is read, the result is the cached \<^verbatim>\<open>X\<close>, labels and metadata with
  \<^verbatim>\<open>None\<close> as fourth component, whatever \<^verbatim>\<open>return_epochs\<close> and
  \<^verbatim>\<open>return_runs\<close> are; the only effect is the message printed, so neither
  \<^verbatim>\<open>is_valid\<close> nor \<^verbatim>\<open>prepare_process\<close> nor \<^verbatim>\<open>process_raw\<close> is called, and
  the cache is left as it was.
\<close>

theorem C10_cache_hit:
  assumes "read_cache disk (cache_path ds subjects) = Inr (X, labels, metadata)"
  shows "get_data lib valid proc_raw ds subjects return_epochs return_runs True disk =
           (disk,
            [Printed ''Using cached data: Beware that it might not be the data you want!''],
            Inr (X, labels, metadata, None))"
  using assms by (simp add: get_data_def)

theorem C10_cache_hit_witness:
  "read_cache cached_disk (cache_path (sample_dataset []) (Some [1, 2])) = Inr (Lst [], [''Target''], []) \<and>
   p300_get_data sim_mne p300_default (sample_dataset []) (Some [1, 2]) True True True cached_disk =
     (cached_disk,
      [Printed ''Using cached data: Beware that it might not be the data you want!''],
      Inr (Lst [], [''Target''], [], None))"
proof -
  have h: "read_cache cached_disk (cache_path (sample_dataset []) (Some [1, 2])) = Inr (Lst [], [''Target''], [])"
    by (simp add: read_cache_def cache_path_def cached_disk_def sample_dataset_def str_subjects_def str_int_def)
  show ?thesis
    using h C10_cache_hit [OF h] by (simp add: p300_get_data_def)
qed

section \<open>Further properties of the aggregation\<close>

text \<open>
  Without \<^verbatim>\<open>return_epochs\<close>, the three outputs are aligned: whenever
  \<^verbatim>\<open>BaseP300.process_raw\<close> returns a tuple, and whenever \<^verbatim>\<open>get_data\<close> of a P300
  paradigm returns without a cache hit, the feature output is an array whose first
  axis has the length of the label vector, which is the number of metadata rows.
\<close>

theorem arrays_labels_metadata_aligned:
  "(snd (process_raw lib self rw ds False return_runs) = Inr (Some (X, labels, met, aux)) \<longrightarrow>
      (\<exists>a rest. X = Arr a \<and> shape a = length labels # rest \<and> length met = length labels)) \<and>
   ((cache \<longrightarrow> (\<exists>e. read_cache disk (cache_path ds subjects) = Inl e)) \<and>
    p300_get_data lib self ds subjects False return_runs cache disk =
      (disk', out, Inr (Xs, all_labels, metadata, processed_runs)) \<longrightarrow>
      (\<exists>a rest. Xs = Arr a \<and> shape a = length all_labels # rest \<and>
                 length metadata = length all_labels))"
proof (intro conjI impI)
  assume "snd (process_raw lib self rw ds False return_runs) = Inr (Some (X, labels, met, aux))"
  from process_raw_arrays [OF this]
  show "\<exists>a rest. X = Arr a \<and> shape a = length labels # rest \<and> length met = length labels"
    by blast
next
  assume g: "(cache \<longrightarrow> (\<exists>e. read_cache disk (cache_path ds subjects) = Inl e)) \<and>
    p300_get_data lib self ds subjects False return_runs cache disk =
      (disk', out, Inr (Xs, all_labels, metadata, processed_runs))"
  then have ret: "get_data lib (is_valid self)
      (\<lambda>rw ds return_epochs return_runs. snd (process_raw lib self rw ds return_epochs return_runs))
      ds subjects False return_runs cache disk =
      (disk', out, Inr (Xs, all_labels, metadata, processed_runs))"
    and miss: "cache \<longrightarrow> (\<exists>e. read_cache disk (cache_path ds subjects) = Inl e)"
    by (simp_all add: p300_get_data_def)
  have "\<exists>a rest. Xs = Arr a \<and> shape a = length all_labels # rest \<and> True \<and>
          length metadata = length all_labels"
  proof (rule get_data_aligned [OF ret miss])
    fix rw x lbs met praw
    assume "snd (process_raw lib self rw ds False return_runs) = Inr (Some (x, lbs, met, praw))"
    from process_raw_arrays [OF this]
    show "\<exists>a rest. x = Arr a \<and> shape a = length lbs # rest \<and> True \<and> length met = length lbs"
      by blast
  qed
  then show "\<exists>a rest. Xs = Arr a \<and> shape a = length all_labels # rest \<and>
                 length metadata = length all_labels"
    by blast
qed

theorem arrays_labels_metadata_aligned_witness:
  "\<exists>disk' out X labels metadata processed_runs.
     p300_get_data sim_mne p300_default two_subjects None False False False empty_disk
       = (disk', out, Inr (X, labels, metadata, processed_runs)) \<and>
     (\<exists>a rest. X = Arr a \<and> shape a = length labels # rest \<and> length metadata = length labels) \<and>
     length labels = 4"
proof -
  have "case p300_get_data sim_mne p300_default two_subjects None False False False empty_disk of
          (disk', out, Inr (X, labels, r)) \<Rightarrow> length labels = 4 | (disk', out, Inl e) \<Rightarrow> False"
    by code_simp
  then obtain disk' out Xs all_labels metadata processed_runs where
    g: "p300_get_data sim_mne p300_default two_subjects None False False False empty_disk
          = (disk', out, Inr (Xs, all_labels, metadata, processed_runs))"
    and n: "length all_labels = 4"
    by (auto split: prod.splits sum.splits)
  from arrays_labels_metadata_aligned [of sim_mne p300_default _ two_subjects False
      _ _ _ _ False empty_disk None disk' out Xs all_labels metadata processed_runs] g
  have "\<exists>a rest. Xs = Arr a \<and> shape a = length all_labels # rest \<and>
                 length metadata = length all_labels"
    by auto
  with g n show ?thesis by blast
qed

text \<open>
  A recording in which no event of the vocabulary is found is skipped: when the
  earlier steps succeed, the event codes are plain integers and \<^verbatim>\<open>pick_events\<close>
  raises RuntimeError, \<^verbatim>\<open>BaseP300.process_raw\<close> returns \<^verbatim>\<open>None\<close>, and the loop
  of \<^verbatim>\<open>get_data\<close> goes on to the next run with its accumulators untouched.
\<close>

theorem no_matching_event_is_skipped:
  assumes "annotate_blinks lib self rw = Inr rw'"
    and "find_all_events lib rw' = Inr evs"
    and "pick_channel_indices lib self rw' = Inr picks"
    and "used_events self ds = Inr eid"
    and "dict_get eid ''Target'' id = Inr (Single c)"
    and "mne_pick_events lib evs (map snd eid) = Inl (RuntimeError msg)"
  shows "snd (process_raw lib self rw ds return_epochs return_runs) = Inr None \<and>
         get_data_loop (\<lambda>rw ds return_epochs return_runs.
              snd (process_raw lib self rw ds return_epochs return_runs))
           ds return_epochs return_runs ((s, e, r, rw) # todo) out acc =
         get_data_loop (\<lambda>rw ds return_epochs return_runs.
              snd (process_raw lib self rw ds return_epochs return_runs))
           ds return_epochs return_runs todo (out @ [ProcessRawCalled s e r]) acc"
proof -
  from assms have "snd (process_raw lib self rw ds return_epochs return_runs) = Inr None"
    by (simp add: process_raw_def p300_process_annotated_def select_events_none_left)
  then show ?thesis by (simp add: Let_def)
qed

theorem no_matching_event_is_skipped_witness:
  "annotate_blinks sim_mne p300_default rec_silent = Inr rec_silent \<and>
   find_all_events sim_mne rec_silent = Inr [] \<and>
   pick_channel_indices sim_mne p300_default rec_silent = Inr [0] \<and>
   used_events p300_default (sample_dataset []) =
     Inr [(''Target'', Single 2), (''NonTarget'', Single 1)] \<and>
   mne_pick_events sim_mne [] [Single 2, Single 1] = Inl (RuntimeError ''No events found'') \<and>
   snd (process_raw sim_mne p300_default rec_silent (sample_dataset []) False False) = Inr None"
proof -
  have h: "annotate_blinks sim_mne p300_default rec_silent = Inr rec_silent"
    "find_all_events sim_mne rec_silent = Inr []"
    "pick_channel_indices sim_mne p300_default rec_silent = Inr [0]"
    "used_events p300_default (sample_dataset []) =
       Inr [(''Target'', Single 2), (''NonTarget'', Single 1)]"
    "dict_get [(''Target'', Single 2), (''NonTarget'', Single 1)] ''Target'' id = Inr (Single 2)"
    "mne_pick_events sim_mne [] (map snd [(''Target'', Single 2), (''NonTarget'', Single (1::int))]) =
       Inl (RuntimeError ''No events found'')"
    by code_simp+
  from no_matching_event_is_skipped [OF h, of False False] h show ?thesis by simp
qed

text \<open>
  With \<^verbatim>\<open>return_epochs\<close>, a run that returns a tuple whose first band holds no
  window is reported and skipped: the loop of \<^verbatim>\<open>get_data\<close> prints the cautionary
  message and goes on with its accumulators untouched.
\<close>

theorem empty_epochs_are_reported:
  assumes "proc_raw rw ds True return_runs = Inr (Some (Lst (Epo ep # others), lbs, met, praw))"
    and "ep_windows ep = []"
  shows "get_data_loop proc_raw ds True return_runs ((s, e, r, rw) # todo) out acc =
         get_data_loop proc_raw ds True return_runs todo
           (out @ [ProcessRawCalled s e r,
                   Printed (''All epochs were removed in run '' @ r @ ''. Are you sure this is right?'')])
           acc"
  using assms by (simp add: Let_def accumulate_no_windows_epochs)

theorem empty_epochs_are_reported_witness:
  "snd (process_raw sim_mne (p300_default\<lparr>reject_uv := Some 40\<rparr>) rec_loud
          (two_runs rec_loud rec_two_events) True False) =
     Inr (Some (Lst [Epo \<lparr>ep_windows = [], ep_nchan = 1, ep_ntimes = 11, ep_tmin = 0,
                          ep_tmax = 1, ep_sfreq = 10\<rparr>],
                [], [], [None], [(2, 0, 2), (12, 0, 1)],
                \<lparr>kw_event_id = [(''Target'', Single 2), (''NonTarget'', Single 1)],
                 kw_tmin = 0, kw_tmax = 1, kw_reject_tmin = None, kw_reject_tmax = None,
                 kw_baseline = None, kw_picks = [0], kw_reject_by_annotation = EogOff,
                 kw_event_repeated = ''error''\<rparr>)) \<and>
   get_data_loop
     (\<lambda>rw ds return_epochs return_runs.
        snd (process_raw sim_mne (p300_default\<lparr>reject_uv := Some 40\<rparr>) rw ds return_epochs return_runs))
     (two_runs rec_loud rec_two_events) True False [(1, ''session_0'', ''run_0'', rec_loud)] []
     \<lparr>acc_X = Lst [], acc_labels = [], acc_metadata = [], acc_processed_runs = []\<rparr> =
     ([ProcessRawCalled 1 ''session_0'' ''run_0'',
       Printed ''All epochs were removed in run run_0. Are you sure this is right?''],
      Inr \<lparr>acc_X = Lst [], acc_labels = [], acc_metadata = [], acc_processed_runs = []\<rparr>)"
proof -
  have h: "snd (process_raw sim_mne (p300_default\<lparr>reject_uv := Some 40\<rparr>) rec_loud
          (two_runs rec_loud rec_two_events) True False) =
     Inr (Some (Lst [Epo \<lparr>ep_windows = [], ep_nchan = 1, ep_ntimes = 11, ep_tmin = 0,
                          ep_tmax = 1, ep_sfreq = 10\<rparr>],
                [], [], [None], [(2, 0, 2), (12, 0, 1)],
                \<lparr>kw_event_id = [(''Target'', Single 2), (''NonTarget'', Single 1)],
                 kw_tmin = 0, kw_tmax = 1, kw_reject_tmin = None, kw_reject_tmax = None,
                 kw_baseline = None, kw_picks = [0], kw_reject_by_annotation = EogOff,
                 kw_event_repeated = ''error''\<rparr>))"
    by code_simp
  have e: "ep_windows \<lparr>ep_windows = [], ep_nchan = 1, ep_ntimes = 11, ep_tmin = 0,
                       ep_tmax = 1, ep_sfreq = 10\<rparr> = []"
    by simp
  from empty_epochs_are_reported
      [of "\<lambda>rw ds return_epochs return_runs.
             snd (process_raw sim_mne (p300_default\<lparr>reject_uv := Some 40\<rparr>) rw ds return_epochs return_runs)",
       OF h e, of 1 "''session_0''" "''run_0''" "[]" "[]"
         "\<lparr>acc_X = Lst [], acc_labels = [], acc_metadata = [], acc_processed_runs = []\<rparr>"]
  have "get_data_loop
     (\<lambda>rw ds return_epochs return_runs.
        snd (process_raw sim_mne (p300_default\<lparr>reject_uv := Some 40\<rparr>) rw ds return_epochs return_runs))
     (two_runs rec_loud rec_two_events) True False [(1, ''session_0'', ''run_0'', rec_loud)] []
     \<lparr>acc_X = Lst [], acc_labels = [], acc_metadata = [], acc_processed_runs = []\<rparr> =
     ([ProcessRawCalled 1 ''session_0'' ''run_0'',
       Printed ''All epochs were removed in run run_0. Are you sure this is right?''],
      Inr \<lparr>acc_X = Lst [], acc_labels = [], acc_metadata = [], acc_processed_runs = []\<rparr>)"
    by simp
  with h show ?thesis by blast
qed

end
